theory Spec2Isabelle
  imports Main "HOL-Library.Word"
begin

section \<open>The server-network attachment resource of the hcloud provider\<close>

text \<open>
  A shallow embedding of \<^verbatim>\<open>hcloud/resource_hcloud_server_network.go\<close>. Go's \<^verbatim>\<open>int\<close> is
  taken at its 64-bit width. Every call to the cloud client and every \<^verbatim>\<open>log.Printf\<close> is
  recorded, in order, in a trace that the functions thread through, so that "which calls
  were issued" is a property of the returned trace.
\<close>

subsection \<open>Data\<close>

type_synonym go_int = "64 word"

type_synonym ip = "8 word list"

record network =
  Network_ID :: go_int

record server_private_net =
  PrivateNet_Network :: network
  PrivateNet_IP :: ip
  PrivateNet_Aliases :: "ip list"
  PrivateNet_MACAddress :: string

record server =
  Server_ID :: go_int
  Server_PrivateNet :: "server_private_net list"

record action =
  Action_ID :: go_int

record server_attach_to_network_opts =
  Attach_Network :: "network option"
  Attach_IP :: ip
  Attach_AliasIPs :: "ip list"

record server_change_alias_ips_opts =
  Change_Network :: "network option"
  Change_AliasIPs :: "ip list"

record server_detach_from_network_opts =
  Detach_Network :: "network option"

text \<open>
  The error codes of the cloud API that the file tests for, and the errors the client
  library can hand back: an API error with a code, or anything else (transport, decoding).
\<close>

datatype error_code =
    ErrorCodeConflict
  | ErrorCodeLocked
  | ErrorCodeNotFound
  | ErrorCodeServerAlreadyAttached
  | ErrorCodeOther string

datatype api_error =
    HcloudError error_code string
  | ForeignError string

text \<open>
  The errors that flow through this file: an error of the client library, the package's
  sentinel \<^verbatim>\<open>errInvalidServerNetworkID\<close>, an error marked by \<^verbatim>\<open>abortRetry\<close>, and the result of
  \<^verbatim>\<open>fmt.Errorf(format, err)\<close> with the verb \<^verbatim>\<open>%v\<close>, which keeps the text and not the identity
  of its argument.
\<close>

datatype err =
    Api api_error
  | errInvalidServerNetworkID
  | AbortRetryError err
  | Errorf string err

text \<open>\<^verbatim>\<open>hcloud.IsError(err, code)\<close>: the error is an API error carrying that code.\<close>

fun IsError :: "err option \<Rightarrow> error_code \<Rightarrow> bool" where
  "IsError (Some (Api (HcloudError c m))) code = (c = code)"
| "IsError _ code = False"

datatype log_arg = ArgString string | ArgErr err | ArgInt go_int

datatype call =
    CallServerGetByID go_int
  | CallNetworkGetByID go_int
  | CallAttachToNetwork "server option" server_attach_to_network_opts
  | CallDetachFromNetwork "server option" server_detach_from_network_opts
  | CallChangeAliasIPs "server option" server_change_alias_ips_opts
  | CallWaitForNetworkAction "action option" "network option"
  | LogPrintf string "log_arg list"

type_synonym trace = "call list"

text \<open>
  What the file uses and does not define. The client library's calls answer as a function
  of everything that happened before (the trace so far), so an answer may differ from one
  attempt to the next; a Go result pair \<^verbatim>\<open>(value, err)\<close> is a pair of options, and a
  pointer handed to the library is an option, \<open>None\<close> for \<^verbatim>\<open>nil\<close>.
  \<^verbatim>\<open>waitForNetworkAction\<close>, \<^verbatim>\<open>defaultMaxRetries\<close> and \<^verbatim>\<open>merge.StringSlice\<close> belong to other files
  of the package; \<^verbatim>\<open>net.ParseIP\<close> and \<^verbatim>\<open>net.IP.String\<close> to the standard library.
\<close>

record env =
  Server_GetByID :: "trace \<Rightarrow> go_int \<Rightarrow> server option \<times> api_error option"
  Network_GetByID :: "trace \<Rightarrow> go_int \<Rightarrow> network option \<times> api_error option"
  Server_AttachToNetwork ::
    "trace \<Rightarrow> server option \<Rightarrow> server_attach_to_network_opts \<Rightarrow>
       action option \<times> api_error option"
  Server_DetachFromNetwork ::
    "trace \<Rightarrow> server option \<Rightarrow> server_detach_from_network_opts \<Rightarrow>
       action option \<times> api_error option"
  Server_ChangeAliasIPs ::
    "trace \<Rightarrow> server option \<Rightarrow> server_change_alias_ips_opts \<Rightarrow>
       action option \<times> api_error option"
  waitForNetworkAction :: "trace \<Rightarrow> action option \<Rightarrow> network option \<Rightarrow> api_error option"
  defaultMaxRetries :: nat
  merge_StringSlice :: "string list \<Rightarrow> string list \<Rightarrow> string list"
  ParseIP :: "string \<Rightarrow> ip"
  IP_String :: "ip \<Rightarrow> string"

text \<open>
  The part of \<^verbatim>\<open>schema.ResourceData\<close> the file reads and writes: the record's id, its
  attributes, and whether the plan changes \<^verbatim>\<open>alias_ips\<close> (\<^verbatim>\<open>d.HasChange("alias_ips")\<close>). The
  list \<^verbatim>\<open>d_alias_ips\<close> is the list form of the set stored under \<^verbatim>\<open>alias_ips\<close>.
\<close>

record resource_data =
  d_Id :: string
  d_network_id :: go_int
  d_subnet_id :: string
  d_server_id :: go_int
  d_ip :: string
  d_alias_ips :: "string list"
  d_mac_address :: string
  d_HasChange_alias_ips :: bool

subsection \<open>Strings and integers of the standard library\<close>

text \<open>
  \<^verbatim>\<open>strings.SplitN(s, sep, n)\<close> for a one-character separator and \<open>n \<ge> 0\<close>: at most \<open>n\<close> pieces,
  the last one being the unsplit rest.
\<close>

fun SplitN :: "string \<Rightarrow> char \<Rightarrow> nat \<Rightarrow> string list" where
  "SplitN s sep 0 = []"
| "SplitN s sep (Suc 0) = [s]"
| "SplitN s sep (Suc (Suc n)) =
     (if sep \<in> set s
      then takeWhile (\<lambda>c. c \<noteq> sep) s # SplitN (tl (dropWhile (\<lambda>c. c \<noteq> sep) s)) sep (Suc n)
      else [s])"

definition is_digit :: "char \<Rightarrow> bool" where
  "is_digit c = (48 \<le> (of_char c :: nat) \<and> (of_char c :: nat) \<le> 57)"

definition digit_value :: "char \<Rightarrow> int" where
  "digit_value c = int (of_char c) - 48"

fun digits_value :: "int \<Rightarrow> string \<Rightarrow> int" where
  "digits_value acc [] = acc"
| "digits_value acc (c # cs) = digits_value (acc * 10 + digit_value c) cs"

text \<open>
  \<^verbatim>\<open>strconv.Atoi\<close> at 64 bits: an optional sign, then one or more decimal digits and nothing
  else; a value outside the range of \<^verbatim>\<open>int\<close> is an error as well. \<open>None\<close> is the error.
\<close>

definition Atoi :: "string \<Rightarrow> go_int option" where
  "Atoi s =
     (let neg = (s \<noteq> [] \<and> hd s = CHR ''-'');
          body = (if s \<noteq> [] \<and> (hd s = CHR ''-'' \<or> hd s = CHR ''+'') then tl s else s)
      in if body = [] \<or> \<not> list_all is_digit body then None
         else let n = digits_value 0 body;
                  v = (if neg then - n else n)
              in if v < - (2 ^ 63) \<or> 2 ^ 63 - 1 < v then None
                 else Some (word_of_int v))"

definition digit_char :: "nat \<Rightarrow> char" where
  "digit_char n = char_of (48 + n)"

fun format_nat :: "nat \<Rightarrow> string" where
  "format_nat n = (if n < 10 then [digit_char n] else format_nat (n div 10) @ [digit_char (n mod 10)])"

declare format_nat.simps [simp del]

text \<open>The verb \<^verbatim>\<open>%d\<close> of \<^verbatim>\<open>fmt.Sprintf\<close> on an \<^verbatim>\<open>int\<close>: signed decimal.\<close>

definition format_d :: "go_int \<Rightarrow> string" where
  "format_d i = (if sint i < 0 then CHR ''-'' # format_nat (nat (- sint i)) else format_nat (nat (sint i)))"

subsection \<open>The identifier and its resolution\<close>

definition generateServerNetworkID :: "server \<Rightarrow> network \<Rightarrow> string" where
  "generateServerNetworkID server network =
     format_d (Server_ID server) @ ''-'' @ format_d (Network_ID network)"

text \<open>
  \<^verbatim>\<open>lookupServerNetworkID\<close>. The result is the four named results of the Go function, with
  \<open>None\<close> for \<^verbatim>\<open>nil\<close>, and the trace extended by the fetches made. The server is fetched
  before the network part of the id is parsed, as in the source.
\<close>

definition lookupServerNetworkID ::
  "env \<Rightarrow> string \<Rightarrow> trace \<Rightarrow>
     (server option \<times> network option \<times> server_private_net option \<times> err option) \<times> trace" where
  "lookupServerNetworkID client terraformID tr =
     (if terraformID = [] then ((None, None, None, Some errInvalidServerNetworkID), tr)
      else
        let parts = SplitN terraformID CHR ''-'' 2 in
        if length parts \<noteq> 2 then ((None, None, None, Some errInvalidServerNetworkID), tr)
        else
          case Atoi (parts ! 0) of
            None \<Rightarrow> ((None, None, None, Some errInvalidServerNetworkID), tr)
          | Some serverID \<Rightarrow>
              let (server, serr) = Server_GetByID client tr serverID;
                  tr1 = tr @ [CallServerGetByID serverID]
              in if serr \<noteq> None then ((server, None, None, Some errInvalidServerNetworkID), tr1)
                 else
                   case server of
                     None \<Rightarrow> ((None, None, None, Some errInvalidServerNetworkID), tr1)
                   | Some srv \<Rightarrow>
                       (case Atoi (parts ! 1) of
                          None \<Rightarrow> ((server, None, None, Some errInvalidServerNetworkID), tr1)
                        | Some networkID \<Rightarrow>
                            let (network, nerr) = Network_GetByID client tr1 networkID;
                                tr2 = tr1 @ [CallNetworkGetByID networkID]
                            in case network of
                                 None \<Rightarrow> ((server, None, None, Some errInvalidServerNetworkID), tr2)
                               | Some nw \<Rightarrow>
                                   ((server, network,
                                     find (\<lambda>pn. Network_ID (PrivateNet_Network pn) = Network_ID nw)
                                       (Server_PrivateNet srv),
                                     map_option Api nerr), tr2)))"

subsection \<open>The retry loop\<close>

text \<open>
  \<^verbatim>\<open>retry\<close> and \<^verbatim>\<open>abortRetry\<close> are defined in another file of the package. In the source
  the wrapped closure does the classification: it returns a plain error to ask for another
  attempt and an error marked by \<^verbatim>\<open>abortRetry\<close> to stop. The pause between attempts is not
  modelled. The closure's captured variables and the trace are the state \<open>'s\<close> it
  transforms.
\<close>

text \<open>
  Modelled from the spec: \<^verbatim>\<open>abortRetry\<close> is missing from the sources. It marks an error as
  one that ends the loop (4.2: any other error aborts immediately); \<^verbatim>\<open>abortRetry(nil)\<close> is
  \<^verbatim>\<open>nil\<close>, since the detach closure returns it on success and the spec (4.6) has a
  successful detach go on to the wait.
\<close>

definition abortRetry :: "err option \<Rightarrow> err option" where
  "abortRetry e = map_option AbortRetryError e"

text \<open>
  Modelled from the spec: the loop of \<^verbatim>\<open>retry\<close>, missing from the sources, with the last
  error seen and the attempts left. The spec (4.2) has it call the operation up to a fixed
  number of times, go on after an error that is to be retried, stop at once on any other
  error, which it hands back without its mark, and surface the last error seen once the
  attempts are used up.
\<close>

fun retry_from :: "err option \<Rightarrow> nat \<Rightarrow> ('s \<Rightarrow> err option \<times> 's) \<Rightarrow> 's \<Rightarrow> err option \<times> 's" where
  "retry_from lasterr 0 fn s = (lasterr, s)"
| "retry_from lasterr (Suc n) fn s =
     (case fn s of
        (None, s') \<Rightarrow> (None, s')
      | (Some (AbortRetryError e), s') \<Rightarrow> (Some e, s')
      | (Some e, s') \<Rightarrow> retry_from (Some e) n fn s')"

text \<open>
  Modelled from the spec: \<^verbatim>\<open>retry(maxTries, fn)\<close>, missing from the sources: the loop above
  started with no error seen.
\<close>

definition retry :: "nat \<Rightarrow> ('s \<Rightarrow> err option \<times> 's) \<Rightarrow> 's \<Rightarrow> err option \<times> 's" where
  "retry maxTries fn s = retry_from None maxTries fn s"

subsection \<open>Attach\<close>

text \<open>
  The closure passed to \<^verbatim>\<open>retry\<close> in \<^verbatim>\<open>attachServerToNetwork\<close>; its state is the captured
  variable \<^verbatim>\<open>a\<close> and the trace.
\<close>

definition attachServerToNetwork_func1 ::
  "env \<Rightarrow> server \<Rightarrow> server_attach_to_network_opts \<Rightarrow> action option \<times> trace \<Rightarrow>
     err option \<times> (action option \<times> trace)" where
  "attachServerToNetwork_func1 c srv opts st =
     (let (a, aerr) = Server_AttachToNetwork c (snd st) (Some srv) opts;
          err = map_option Api aerr;
          tr = snd st @ [CallAttachToNetwork (Some srv) opts]
      in if IsError err ErrorCodeConflict \<or> IsError err ErrorCodeLocked then (err, (a, tr))
         else if err \<noteq> None then (abortRetry err, (a, tr))
         else (None, (a, tr)))"

definition attachServerToNetwork ::
  "env \<Rightarrow> server \<Rightarrow> network \<Rightarrow> ip \<Rightarrow> ip list \<Rightarrow> trace \<Rightarrow> err option \<times> trace" where
  "attachServerToNetwork c srv nw ip aliasIPs tr =
     (let opts = \<lparr>Attach_Network = Some nw, Attach_IP = ip, Attach_AliasIPs = aliasIPs\<rparr>;
          (err, a, tr1) = retry (defaultMaxRetries c) (attachServerToNetwork_func1 c srv opts) (None, tr)
      in if IsError err ErrorCodeServerAlreadyAttached
         then (None, tr1 @ [LogPrintf ''[INFO] Server (%v) already attachted to network %v''
                              [ArgInt (Server_ID srv), ArgInt (Network_ID nw)]])
         else
           case err of
             Some e \<Rightarrow> (Some (Errorf ''attach server to network: %v'' e), tr1)
           | None \<Rightarrow>
               (case waitForNetworkAction c tr1 a (Some nw) of
                  Some w \<Rightarrow> (Some (Errorf ''attach server to network: %v'' (Api w)),
                             tr1 @ [CallWaitForNetworkAction a (Some nw)])
                | None \<Rightarrow> (None, tr1 @ [CallWaitForNetworkAction a (Some nw)])))"

subsection \<open>Read, update and delete\<close>

text \<open>
  The operations return the diagnostics (\<open>None\<close> for \<^verbatim>\<open>nil\<close>, \<open>Some e\<close> for
  \<^verbatim>\<open>diag.FromErr(e)\<close>), the resource data as they leave it, and the trace.
\<close>

definition setServerNetworkSchema ::
  "env \<Rightarrow> resource_data \<Rightarrow> server \<Rightarrow> network \<Rightarrow> server_private_net \<Rightarrow> resource_data" where
  "setServerNetworkSchema c d srv nw pn =
     (let d1 = d\<lparr>d_Id := generateServerNetworkID srv nw,
                 d_ip := IP_String c (PrivateNet_IP pn),
                 d_alias_ips := merge_StringSlice c (d_alias_ips d)
                                  (map (IP_String c) (PrivateNet_Aliases pn)),
                 d_mac_address := PrivateNet_MACAddress pn\<rparr>;
          d2 = (if d_subnet_id d1 \<noteq> [] then d1 else d1\<lparr>d_network_id := Network_ID nw\<rparr>)
      in d2\<lparr>d_server_id := Server_ID srv\<rparr>)"

definition resourceServerNetworkRead ::
  "env \<Rightarrow> resource_data \<Rightarrow> trace \<Rightarrow> err option \<times> resource_data \<times> trace" where
  "resourceServerNetworkRead c d tr =
     (let ((server, network, privateNet, err), tr1) = lookupServerNetworkID c (d_Id d) tr
      in if err = Some errInvalidServerNetworkID
         then (None, d\<lparr>d_Id := []\<rparr>,
               tr1 @ [LogPrintf ''[WARN] Invalid id (%s), removing from state: %s''
                        [ArgString (d_Id d), ArgErr errInvalidServerNetworkID]])
         else
           case err of
             Some e \<Rightarrow> (Some e, d, tr1)
           | None \<Rightarrow>
               (case server of
                  None \<Rightarrow> (None, d\<lparr>d_Id := []\<rparr>,
                            tr1 @ [LogPrintf ''[WARN] Server (%s) not found, removing from state''
                                     [ArgString (d_Id d)]])
                | Some srv \<Rightarrow>
                    (case network of
                       None \<Rightarrow> (None, d\<lparr>d_Id := []\<rparr>,
                                 tr1 @ [LogPrintf ''[WARN] Network (%s) not found, removing from state''
                                          [ArgString (d_Id d)]])
                     | Some nw \<Rightarrow>
                         (case privateNet of
                            None \<Rightarrow> (None, d\<lparr>d_Id := []\<rparr>,
                                      tr1 @ [LogPrintf
                                               ''[WARN] Server Attachment (%s) not found, removing from state''
                                               [ArgString (d_Id d)]])
                          | Some pn \<Rightarrow>
                              (None,
                               setServerNetworkSchema c (d\<lparr>d_Id := generateServerNetworkID srv nw\<rparr>)
                                 srv nw pn,
                               tr1)))))"

definition resourceServerNetworkUpdate ::
  "env \<Rightarrow> resource_data \<Rightarrow> trace \<Rightarrow> err option \<times> resource_data \<times> trace" where
  "resourceServerNetworkUpdate c d tr =
     (let ((server, network, privateNet, err), tr1) = lookupServerNetworkID c (d_Id d) tr
      in if err = Some errInvalidServerNetworkID
         then (None, d\<lparr>d_Id := []\<rparr>,
               tr1 @ [LogPrintf ''[WARN] Invalid id (%s), removing from state: %s''
                        [ArgString (d_Id d), ArgErr errInvalidServerNetworkID]])
         else
           case err of
             Some e \<Rightarrow> (Some e, d, tr1)
           | None \<Rightarrow>
               (case server of
                  None \<Rightarrow> (None, d\<lparr>d_Id := []\<rparr>,
                            tr1 @ [LogPrintf ''[WARN] Server (%s) not found, removing from state''
                                     [ArgString (d_Id d)]])
                | Some srv \<Rightarrow>
                    (case network of
                       None \<Rightarrow> (None, d\<lparr>d_Id := []\<rparr>,
                                 tr1 @ [LogPrintf ''[WARN] Network (%s) not found, removing from state''
                                          [ArgString (d_Id d)]])
                     | Some nw \<Rightarrow>
                         if d_HasChange_alias_ips d
                         then
                           let opts = \<lparr>Change_Network = network,
                                       Change_AliasIPs = map (ParseIP c) (d_alias_ips d)\<rparr>;
                               (action, cerr) = Server_ChangeAliasIPs c tr1 server opts;
                               tr2 = tr1 @ [CallChangeAliasIPs server opts]
                           in case cerr of
                                Some e \<Rightarrow> (Some (Api e), d, tr2)
                              | None \<Rightarrow>
                                  (case waitForNetworkAction c tr2 action network of
                                     Some w \<Rightarrow> (Some (Api w), d,
                                                tr2 @ [CallWaitForNetworkAction action network])
                                   | None \<Rightarrow>
                                       resourceServerNetworkRead c d
                                         (tr2 @ [CallWaitForNetworkAction action network]))
                         else resourceServerNetworkRead c d tr1)))"

text \<open>
  The closure passed to \<^verbatim>\<open>retry\<close> in \<^verbatim>\<open>resourceServerNetworkDelete\<close>; its state is the
  captured variable \<^verbatim>\<open>action\<close> and the trace.
\<close>

definition resourceServerNetworkDelete_func1 ::
  "env \<Rightarrow> server option \<Rightarrow> network option \<Rightarrow> action option \<times> trace \<Rightarrow>
     err option \<times> (action option \<times> trace)" where
  "resourceServerNetworkDelete_func1 c server network st =
     (let opts = \<lparr>Detach_Network = network\<rparr>;
          (action, derr) = Server_DetachFromNetwork c (snd st) server opts;
          err = map_option Api derr;
          tr = snd st @ [CallDetachFromNetwork server opts]
      in if IsError err ErrorCodeConflict \<or> IsError err ErrorCodeLocked then (err, (action, tr))
         else (abortRetry err, (action, tr)))"

definition resourceServerNetworkDelete ::
  "env \<Rightarrow> resource_data \<Rightarrow> trace \<Rightarrow> err option \<times> resource_data \<times> trace" where
  "resourceServerNetworkDelete c d tr =
     (let ((server, network, privateNet, err), tr1) = lookupServerNetworkID c (d_Id d) tr
      in case err of
           Some e \<Rightarrow>
             (None, d\<lparr>d_Id := []\<rparr>,
              tr1 @ [LogPrintf ''[WARN] Invalid id (%s), removing from state: %s''
                       [ArgString (d_Id d), ArgErr e]])
         | None \<Rightarrow>
             let (rerr, action, tr2) =
                   retry (defaultMaxRetries c) (resourceServerNetworkDelete_func1 c server network)
                     (None, tr1)
             in if IsError rerr ErrorCodeNotFound then (None, d, tr2)
                else
                  case rerr of
                    Some e \<Rightarrow> (Some e, d, tr2)
                  | None \<Rightarrow>
                      (case waitForNetworkAction c tr2 action network of
                         Some w \<Rightarrow> (Some (Api w), d, tr2 @ [CallWaitForNetworkAction action network])
                       | None \<Rightarrow> (None, d, tr2 @ [CallWaitForNetworkAction action network])))"

subsection \<open>Predicates used in the statements\<close>

text \<open>
  The test both closures make on the library's answer: the error is an API error with the
  code \<^verbatim>\<open>conflict\<close> or \<^verbatim>\<open>locked\<close>.
\<close>

definition retryable :: "api_error option \<Rightarrow> bool" where
  "retryable r =
     (IsError (map_option Api r) ErrorCodeConflict \<or> IsError (map_option Api r) ErrorCodeLocked)"

text \<open>
  The identifier does not decode: it is empty, it does not split at its first dash into two
  parts, or \<^verbatim>\<open>strconv.Atoi\<close> rejects one of the parts.
\<close>

definition decode_fails :: "string \<Rightarrow> bool" where
  "decode_fails terraformID =
     (terraformID = [] \<or> length (SplitN terraformID CHR ''-'' 2) \<noteq> 2 \<or>
      Atoi (SplitN terraformID CHR ''-'' 2 ! 0) = None \<or>
      Atoi (SplitN terraformID CHR ''-'' 2 ! 1) = None)"

text \<open>
  The log lines written only by the branches of read and update that test for a \<^verbatim>\<open>nil\<close>
  server or network after the error checks.
\<close>

definition nil_branch_log :: "call \<Rightarrow> bool" where
  "nil_branch_log ev =
     (case ev of
        LogPrintf fmt args \<Rightarrow>
          fmt = ''[WARN] Server (%s) not found, removing from state'' \<or>
          fmt = ''[WARN] Network (%s) not found, removing from state''
      | _ \<Rightarrow> False)"

text \<open>Recognisers for the kinds of call in a trace.\<close>

definition is_wait_call :: "call \<Rightarrow> bool" where
  "is_wait_call ev = (case ev of CallWaitForNetworkAction a nw \<Rightarrow> True | _ \<Rightarrow> False)"

definition is_change_call :: "call \<Rightarrow> bool" where
  "is_change_call ev = (case ev of CallChangeAliasIPs s opts \<Rightarrow> True | _ \<Rightarrow> False)"

definition is_attach_call :: "call \<Rightarrow> bool" where
  "is_attach_call ev = (case ev of CallAttachToNetwork s opts \<Rightarrow> True | _ \<Rightarrow> False)"

definition is_detach_call :: "call \<Rightarrow> bool" where
  "is_detach_call ev = (case ev of CallDetachFromNetwork s opts \<Rightarrow> True | _ \<Rightarrow> False)"

subsection \<open>Example environments\<close>

text \<open>
  Concrete environments and resource data on which the theorems below are instantiated.
  In \<open>env_found\<close> every server and network exists and no server has a membership; in
  \<open>env_attached\<close> every server is a member of network 100. The others answer a mutating
  call with \<^verbatim>\<open>locked\<close> the first time and differently afterwards, always with a
  retryable error, with an error that is not retried, or let the awaited action fail.
\<close>

definition env_found :: env where
  "env_found =
     \<lparr>Server_GetByID = (\<lambda>tr i. (Some \<lparr>Server_ID = i, Server_PrivateNet = []\<rparr>, None)),
      Network_GetByID = (\<lambda>tr i. (Some \<lparr>Network_ID = i\<rparr>, None)),
      Server_AttachToNetwork = (\<lambda>tr s opts. (Some \<lparr>Action_ID = 1\<rparr>, None)),
      Server_DetachFromNetwork = (\<lambda>tr s opts. (Some \<lparr>Action_ID = 2\<rparr>, None)),
      Server_ChangeAliasIPs = (\<lambda>tr s opts. (Some \<lparr>Action_ID = 3\<rparr>, None)),
      waitForNetworkAction = (\<lambda>tr a nw. None),
      defaultMaxRetries = 5,
      merge_StringSlice = (\<lambda>xs ys. ys),
      ParseIP = (\<lambda>s. []),
      IP_String = (\<lambda>i. [])\<rparr>"

definition env_attached :: env where
  "env_attached =
     env_found\<lparr>Server_GetByID :=
       (\<lambda>tr i. (Some \<lparr>Server_ID = i,
                       Server_PrivateNet =
                         [\<lparr>PrivateNet_Network = \<lparr>Network_ID = 100\<rparr>, PrivateNet_IP = [10, 0, 0, 2],
                           PrivateNet_Aliases = [], PrivateNet_MACAddress = ''86:00:00:2a:7e:3f''\<rparr>]\<rparr>,
                 None))\<rparr>"

definition env_change_locked_once :: env where
  "env_change_locked_once =
     env_attached\<lparr>Server_ChangeAliasIPs :=
       (\<lambda>tr s opts. if list_ex is_change_call tr then (Some \<lparr>Action_ID = 3\<rparr>, None)
                     else (None, Some (HcloudError ErrorCodeLocked ''network is locked'')))\<rparr>"

definition d_example :: resource_data where
  "d_example =
     \<lparr>d_Id = ''5-100'', d_network_id = 100, d_subnet_id = [], d_server_id = 5, d_ip = ''10.0.0.2'',
      d_alias_ips = [''10.0.0.5''], d_mac_address = [], d_HasChange_alias_ips = True\<rparr>"

definition env_server_gone :: env where
  "env_server_gone = env_found\<lparr>Server_GetByID := (\<lambda>tr i. (None, None))\<rparr>"

definition env_network_gone :: env where
  "env_network_gone = env_found\<lparr>Network_GetByID := (\<lambda>tr i. (None, None))\<rparr>"

definition env_attach_locked_then_attached :: env where
  "env_attach_locked_then_attached =
     env_found\<lparr>Server_AttachToNetwork :=
       (\<lambda>tr s opts. if list_ex is_attach_call tr
                     then (None, Some (HcloudError ErrorCodeServerAlreadyAttached ''already attached''))
                     else (None, Some (HcloudError ErrorCodeLocked ''network is locked'')))\<rparr>"

definition env_detach_locked_then_gone :: env where
  "env_detach_locked_then_gone =
     env_attached\<lparr>Server_DetachFromNetwork :=
       (\<lambda>tr s opts. if list_ex is_detach_call tr
                     then (None, Some (HcloudError ErrorCodeNotFound ''not found''))
                     else (None, Some (HcloudError ErrorCodeLocked ''network is locked'')))\<rparr>"

definition env_always_locked :: env where
  "env_always_locked =
     env_attached\<lparr>Server_AttachToNetwork :=
                    (\<lambda>tr s opts. (None, Some (HcloudError ErrorCodeLocked ''network is locked''))),
                  Server_DetachFromNetwork :=
                    (\<lambda>tr s opts. (None, Some (HcloudError ErrorCodeConflict ''conflict''))),
                  defaultMaxRetries := 2\<rparr>"


definition env_detach_forbidden :: env where
  "env_detach_forbidden =
     env_attached\<lparr>Server_DetachFromNetwork :=
       (\<lambda>tr s opts. (None, Some (HcloudError (ErrorCodeOther ''forbidden'') ''insufficient permissions'')))\<rparr>"

definition env_wait_fails :: env where
  "env_wait_fails =
     env_attached\<lparr>waitForNetworkAction := (\<lambda>tr a nw. Some (ForeignError ''action failed''))\<rparr>"

section \<open>Properties\<close>

subsection \<open>Decimal strings and splitting\<close>

lemma digit_char_props:
  assumes "d < 10"
  shows "is_digit (digit_char d)" "digit_value (digit_char d) = int d"
  using assms by (simp_all add: is_digit_def digit_value_def digit_char_def)

lemma is_digit_not_sign: "is_digit c \<Longrightarrow> c \<noteq> CHR ''-'' \<and> c \<noteq> CHR ''+''"
  by (auto simp: is_digit_def)

lemma format_nat_digits: "list_all is_digit (format_nat n)"
  by (induction n rule: format_nat.induct) (subst format_nat.simps, simp add: digit_char_props)

lemma format_nat_nonempty: "format_nat n \<noteq> []"
  by (subst format_nat.simps) simp

lemma format_nat_no_dash: "CHR ''-'' \<notin> set (format_nat n)"
  using format_nat_digits [of n] is_digit_not_sign by (auto simp: list_all_iff)

lemma digits_value_snoc: "digits_value acc (cs @ [c]) = digits_value acc cs * 10 + digit_value c"
  by (induction cs arbitrary: acc) simp_all

lemma digits_value_format_nat: "digits_value 0 (format_nat n) = int n"
proof (induction n rule: format_nat.induct)
  case (1 n)
  show ?case
  proof (cases "n < 10")
    case True
    then show ?thesis by (subst format_nat.simps) (simp add: digit_char_props)
  next
    case False
    then have "digits_value 0 (format_nat (n div 10)) = int (n div 10)" using 1 by simp
    with False show ?thesis
      by (subst format_nat.simps) (simp add: digits_value_snoc digit_char_props zdiv_int zmod_int)
  qed
qed

lemma break_at_first:
  "sep \<notin> set a \<Longrightarrow>
     takeWhile (\<lambda>c. c \<noteq> sep) (a @ sep # b) = a \<and> dropWhile (\<lambda>c. c \<noteq> sep) (a @ sep # b) = sep # b"
  by (induction a) auto

lemma SplitN_first_dash:
  "sep \<notin> set a \<Longrightarrow> SplitN (a @ sep # b) sep 2 = [a, b]"
  by (simp add: numeral_2_eq_2 break_at_first)

lemma Atoi_format_nat:
  assumes "int n < 2 ^ 63"
  shows "Atoi (format_nat n) = Some (word_of_int (int n))"
proof -
  obtain c cs where cs: "format_nat n = c # cs"
    using format_nat_nonempty [of n] by (cases "format_nat n") auto
  have "is_digit c" using format_nat_digits [of n] cs by simp
  then have c: "c \<noteq> CHR ''-''" "c \<noteq> CHR ''+''" using is_digit_not_sign by auto
  have "Atoi (c # cs) = Some (word_of_int (digits_value 0 (c # cs)))"
    using c format_nat_digits [of n] digits_value_format_nat [of n] assms
    unfolding cs Atoi_def Let_def by simp
  then show ?thesis using digits_value_format_nat [of n] cs by simp
qed

lemma Atoi_format_d:
  fixes i :: go_int
  assumes "0 \<le> sint i"
  shows "Atoi (format_d i) = Some i"
proof -
  have "sint i < 2 ^ 63" using sint_lt [of i] by simp
  then have "int (nat (sint i)) < 2 ^ 63" using assms by simp
  then have "Atoi (format_nat (nat (sint i))) = Some (word_of_int (int (nat (sint i))))"
    by (rule Atoi_format_nat)
  then show ?thesis using assms by (simp add: format_d_def)
qed

lemma format_d_no_dash: "0 \<le> sint i \<Longrightarrow> CHR ''-'' \<notin> set (format_d i)"
  by (simp add: format_d_def format_nat_no_dash)

lemma SplitN_generate:
  "0 \<le> sint (Server_ID server) \<Longrightarrow>
     SplitN (generateServerNetworkID server network) CHR ''-'' 2 =
       [format_d (Server_ID server), format_d (Network_ID network)]"
  unfolding generateServerNetworkID_def
  using SplitN_first_dash [OF format_d_no_dash] by simp

lemma generate_single_dash:
  assumes "0 \<le> sint (Server_ID server)" and "0 \<le> sint (Network_ID network)"
  shows "filter (\<lambda>c. c = CHR ''-'') (generateServerNetworkID server network) = ''-''"
proof -
  have none: "\<And>xs. CHR ''-'' \<notin> set xs \<Longrightarrow> filter (\<lambda>c. c = CHR ''-'') xs = []"
    by (auto simp: filter_empty_conv)
  show ?thesis
    using none [OF format_d_no_dash [OF assms(1)]] none [OF format_d_no_dash [OF assms(2)]]
    by (simp add: generateServerNetworkID_def)
qed

lemma SplitN_length_2: "length (SplitN s sep 2) = 2 \<Longrightarrow> \<exists>a b. SplitN s sep 2 = [a, b]"
  by (cases "SplitN s sep 2"; cases "tl (SplitN s sep 2)") auto

subsection \<open>The resolver\<close>

lemma lookup_err_None:
  assumes "lookupServerNetworkID c terraformID tr = ((server, network, pn, err), tr')"
  shows "(err = None \<longrightarrow> server \<noteq> None \<and> network \<noteq> None) \<and>
         (server = None \<or> network = None \<longrightarrow> err = Some errInvalidServerNetworkID)"
  using assms
  by (auto simp: lookupServerNetworkID_def Let_def split: if_splits option.splits prod.splits)

lemma lookup_trace_logs:
  "filter nil_branch_log (snd (lookupServerNetworkID c terraformID tr)) = filter nil_branch_log tr"
  by (auto simp: lookupServerNetworkID_def Let_def nil_branch_log_def
      split: if_splits option.splits prod.splits)

lemma Read_trace_logs:
  "filter nil_branch_log (snd (snd (resourceServerNetworkRead c d tr))) = filter nil_branch_log tr"
proof -
  obtain server network pn err tr1 where
    l: "lookupServerNetworkID c (d_Id d) tr = ((server, network, pn, err), tr1)"
    by (metis prod.exhaust)
  have t: "filter nil_branch_log tr1 = filter nil_branch_log tr"
    using lookup_trace_logs [of c "d_Id d" tr] l by simp
  have n: "err = None \<longrightarrow> server \<noteq> None \<and> network \<noteq> None"
    using lookup_err_None [OF l] by simp
  show ?thesis
    using t n unfolding resourceServerNetworkRead_def l
    by (auto simp: nil_branch_log_def split: option.splits)
qed

lemma Update_trace_logs:
  "filter nil_branch_log (snd (snd (resourceServerNetworkUpdate c d tr))) = filter nil_branch_log tr"
proof -
  obtain server network pn err tr1 where
    l: "lookupServerNetworkID c (d_Id d) tr = ((server, network, pn, err), tr1)"
    by (metis prod.exhaust)
  have t: "filter nil_branch_log tr1 = filter nil_branch_log tr"
    using lookup_trace_logs [of c "d_Id d" tr] l by simp
  have n: "err = None \<longrightarrow> server \<noteq> None \<and> network \<noteq> None"
    using lookup_err_None [OF l] by simp
  show ?thesis
    using t n unfolding resourceServerNetworkUpdate_def l
    by (auto simp: nil_branch_log_def Read_trace_logs Let_def split: option.splits prod.splits)
qed

lemma lookup_decode_fails:
  assumes "decode_fails terraformID"
  shows "snd (snd (snd (fst (lookupServerNetworkID c terraformID tr)))) =
           Some errInvalidServerNetworkID"
    and "snd (lookupServerNetworkID c terraformID tr) =
           (if terraformID \<noteq> [] \<and> length (SplitN terraformID CHR ''-'' 2) = 2
            then case Atoi (SplitN terraformID CHR ''-'' 2 ! 0) of
                   None \<Rightarrow> tr
                 | Some serverID \<Rightarrow> tr @ [CallServerGetByID serverID]
            else tr)"
  using assms
  by (auto simp: lookupServerNetworkID_def decode_fails_def Let_def
      split: option.splits prod.splits)

text \<open>
  Claim C3, as amended. When the identifier does not decode, the resolver returns the
  sentinel \<^verbatim>\<open>errInvalidServerNetworkID\<close> and never fetches a network. It fetches nothing at
  all when the identifier is empty, has no dash, or has a server part that is not an
  integer. When only the network part is not an integer, the server has been fetched once
  already, because the source parses the network part after \<^verbatim>\<open>client.Server.GetByID\<close>;
  the trace is then exactly that one fetch.
\<close>

theorem decode_failure_fetches:
  assumes "decode_fails terraformID"
  shows "snd (snd (snd (fst (lookupServerNetworkID c terraformID tr)))) =
           Some errInvalidServerNetworkID \<and>
         snd (lookupServerNetworkID c terraformID tr) =
           (if terraformID \<noteq> [] \<and> length (SplitN terraformID CHR ''-'' 2) = 2
            then case Atoi (SplitN terraformID CHR ''-'' 2 ! 0) of
                   None \<Rightarrow> tr
                 | Some serverID \<Rightarrow> tr @ [CallServerGetByID serverID]
            else tr)"
  using lookup_decode_fails [OF assms, of c tr] by simp

text \<open>
  The two shapes of failure on concrete identifiers: \<^verbatim>\<open>abc\<close> has no dash and causes no
  fetch; \<^verbatim>\<open>7-x\<close> has a good server part and causes the fetch of server 7.
\<close>

theorem decode_failure_fetches_witness:
  "decode_fails ''abc'' \<and>
   lookupServerNetworkID env_found ''abc'' [] =
     ((None, None, None, Some errInvalidServerNetworkID), []) \<and>
   decode_fails ''7-x'' \<and>
   snd (snd (snd (fst (lookupServerNetworkID env_found ''7-x'' [])))) =
     Some errInvalidServerNetworkID \<and>
   snd (lookupServerNetworkID env_found ''7-x'' []) = [CallServerGetByID 7]"
proof -
  have d1: "decode_fails ''abc''"
    by (simp add: decode_fails_def numeral_2_eq_2)
  have d2: "decode_fails ''7-x''"
    by (simp add: decode_fails_def numeral_2_eq_2 Atoi_def is_digit_def)
  have s: "SplitN ''7-x'' CHR ''-'' 2 = [''7'', ''x'']" "Atoi ''7'' = Some 7"
    by (simp_all add: numeral_2_eq_2 Atoi_def is_digit_def digit_value_def)
  have e: "lookupServerNetworkID env_found ''abc'' [] =
     ((None, None, None, Some errInvalidServerNetworkID), [])"
    by (simp add: lookupServerNetworkID_def numeral_2_eq_2)
  show ?thesis
    using d1 d2 e s decode_failure_fetches [OF d2, of env_found "[]"]
      decode_failure_fetches [OF d1, of env_found "[]"]
    by simp
qed

text \<open>
  Claim C3 as stated fails: \<^verbatim>\<open>12-34-56\<close> does not decode (its network part is
  \<^verbatim>\<open>34-56\<close>), and yet resolving it fetches server 12 before the sentinel is returned.
\<close>

theorem decode_failure_fetch_counterexample:
  "decode_fails ''12-34-56'' \<and>
   snd (lookupServerNetworkID env_found ''12-34-56'' []) = [CallServerGetByID 12] \<and>
   snd (lookupServerNetworkID env_found ''12-34-56'' []) \<noteq> []"
  by (simp add: decode_fails_def lookupServerNetworkID_def env_found_def numeral_2_eq_2 Atoi_def
      is_digit_def digit_value_def)

text \<open>
  Claim C4. For an identifier that decodes to \<open>serverID\<close> and \<open>networkID\<close>: if the server
  fetch returns an error or no server, the resolver returns the sentinel; if the server is
  there and the network fetch returns no network, it returns the sentinel; if both are
  there and no entry of the server's \<^verbatim>\<open>PrivateNet\<close> has the network's id, it returns the
  server, the network, no membership and no error.
\<close>

theorem resolver_three_absence_cases:
  assumes "terraformID \<noteq> []"
    and "SplitN terraformID CHR ''-'' 2 = [a, b]"
    and "Atoi a = Some serverID"
    and "Atoi b = Some networkID"
  shows "(snd (Server_GetByID c tr serverID) \<noteq> None \<or> fst (Server_GetByID c tr serverID) = None \<longrightarrow>
           snd (snd (snd (fst (lookupServerNetworkID c terraformID tr)))) =
             Some errInvalidServerNetworkID) \<and>
         (Server_GetByID c tr serverID = (Some srv, None) \<and>
          fst (Network_GetByID c (tr @ [CallServerGetByID serverID]) networkID) = None \<longrightarrow>
           snd (snd (snd (fst (lookupServerNetworkID c terraformID tr)))) =
             Some errInvalidServerNetworkID) \<and>
         (Server_GetByID c tr serverID = (Some srv, None) \<and>
          Network_GetByID c (tr @ [CallServerGetByID serverID]) networkID = (Some nw, None) \<and>
          (\<forall>pn \<in> set (Server_PrivateNet srv). Network_ID (PrivateNet_Network pn) \<noteq> Network_ID nw) \<longrightarrow>
           fst (lookupServerNetworkID c terraformID tr) = (Some srv, Some nw, None, None))"
  using assms
  by (auto simp: lookupServerNetworkID_def Let_def find_None_iff
      split: option.splits prod.splits)

text \<open>The three cases on the identifier \<^verbatim>\<open>5-100\<close>, in three environments.\<close>

theorem resolver_three_absence_cases_witness:
  "snd (snd (snd (fst (lookupServerNetworkID env_server_gone ''5-100'' [])))) =
     Some errInvalidServerNetworkID \<and>
   snd (snd (snd (fst (lookupServerNetworkID env_network_gone ''5-100'' [])))) =
     Some errInvalidServerNetworkID \<and>
   fst (lookupServerNetworkID env_found ''5-100'' []) =
     (Some \<lparr>Server_ID = 5, Server_PrivateNet = []\<rparr>, Some \<lparr>Network_ID = 100\<rparr>, None, None)"
proof -
  have h: "''5-100'' \<noteq> []" "SplitN ''5-100'' CHR ''-'' 2 = [''5'', ''100'']"
    "Atoi ''5'' = Some 5" "Atoi ''100'' = Some 100"
    by (simp_all add: numeral_2_eq_2 Atoi_def is_digit_def digit_value_def)
  note t = resolver_three_absence_cases [OF h]
  have 1: "snd (snd (snd (fst (lookupServerNetworkID env_server_gone ''5-100'' [])))) =
     Some errInvalidServerNetworkID"
    using t [of env_server_gone "[]"] by (simp add: env_server_gone_def env_found_def)
  have 2: "snd (snd (snd (fst (lookupServerNetworkID env_network_gone ''5-100'' [])))) =
     Some errInvalidServerNetworkID"
    using t [of env_network_gone "[]" "\<lparr>Server_ID = 5, Server_PrivateNet = []\<rparr>"]
    by (simp add: env_network_gone_def env_found_def)
  have 3: "fst (lookupServerNetworkID env_found ''5-100'' []) =
     (Some \<lparr>Server_ID = 5, Server_PrivateNet = []\<rparr>, Some \<lparr>Network_ID = 100\<rparr>, None, None)"
    using t [of env_found "[]" "\<lparr>Server_ID = 5, Server_PrivateNet = []\<rparr>" "\<lparr>Network_ID = 100\<rparr>"]
    by (simp add: env_found_def)
  show ?thesis using 1 2 3 by simp
qed

text \<open>
  Claim C5. For a server and a network with non-negative ids, the identifier
  \<^verbatim>\<open>generateServerNetworkID\<close> builds (the two ids in decimal around a dash) holds exactly
  one dash, splits at it into two parts that \<^verbatim>\<open>strconv.Atoi\<close> reads back as the two ids,
  and the resolver given this identifier fetches exactly that server and, when it exists,
  exactly that network.
\<close>

theorem identifier_round_trip:
  assumes "0 \<le> sint (Server_ID server)" and "0 \<le> sint (Network_ID network)"
  shows "filter (\<lambda>c. c = CHR ''-'') (generateServerNetworkID server network) = ''-'' \<and>
         map Atoi (SplitN (generateServerNetworkID server network) CHR ''-'' 2) =
           [Some (Server_ID server), Some (Network_ID network)] \<and>
         (fst (Server_GetByID c tr (Server_ID server)) \<noteq> None \<and>
          snd (Server_GetByID c tr (Server_ID server)) = None \<longrightarrow>
            snd (lookupServerNetworkID c (generateServerNetworkID server network) tr) =
              tr @ [CallServerGetByID (Server_ID server), CallNetworkGetByID (Network_ID network)])"
proof -
  let ?id = "generateServerNetworkID server network"
  have ne: "?id \<noteq> []" by (simp add: generateServerNetworkID_def)
  have sp: "SplitN ?id CHR ''-'' 2 = [format_d (Server_ID server), format_d (Network_ID network)]"
    using assms(1) by (rule SplitN_generate)
  have a1: "Atoi (format_d (Server_ID server)) = Some (Server_ID server)"
    using assms(1) by (rule Atoi_format_d)
  have a2: "Atoi (format_d (Network_ID network)) = Some (Network_ID network)"
    using assms(2) by (rule Atoi_format_d)
  have fetches: "fst (Server_GetByID c tr (Server_ID server)) \<noteq> None \<and>
          snd (Server_GetByID c tr (Server_ID server)) = None \<longrightarrow>
            snd (lookupServerNetworkID c ?id tr) =
              tr @ [CallServerGetByID (Server_ID server), CallNetworkGetByID (Network_ID network)]"
    using ne sp a1 a2
    by (auto simp: lookupServerNetworkID_def Let_def split: option.splits prod.splits)
  show ?thesis
    using generate_single_dash [OF assms] sp a1 a2 fetches by simp
qed

text \<open>The round trip for server 5 and network 100.\<close>

theorem identifier_round_trip_witness:
  "generateServerNetworkID \<lparr>Server_ID = 5, Server_PrivateNet = []\<rparr> \<lparr>Network_ID = 100\<rparr> = ''5-100'' \<and>
   map Atoi (SplitN ''5-100'' CHR ''-'' 2) = [Some 5, Some 100] \<and>
   snd (lookupServerNetworkID env_found ''5-100'' []) =
     [CallServerGetByID 5, CallNetworkGetByID 100]"
proof -
  have g: "generateServerNetworkID \<lparr>Server_ID = 5, Server_PrivateNet = []\<rparr> \<lparr>Network_ID = 100\<rparr> = ''5-100''"
    by code_simp
  show ?thesis
    using identifier_round_trip
      [of "\<lparr>Server_ID = 5, Server_PrivateNet = []\<rparr>" "\<lparr>Network_ID = 100\<rparr>" env_found "[]"]
    unfolding g by (simp add: env_found_def)
qed

text \<open>
  Claim C6. In an environment where every server fetch and every network fetch finds its
  record, the resolver returns the sentinel exactly when the identifier is empty, does not
  split into two parts at its first dash, or has a part that is not an integer. The split
  is at the first dash only: \<^verbatim>\<open>12-34-56\<close> splits into \<^verbatim>\<open>12\<close> and \<^verbatim>\<open>34-56\<close>, the second part is
  not an integer, and in every environment the result is the sentinel.
\<close>

theorem decode_fails_exactly_when:
  assumes "\<And>t i. fst (Server_GetByID c t i) \<noteq> None \<and> snd (Server_GetByID c t i) = None"
    and "\<And>t i. fst (Network_GetByID c t i) \<noteq> None"
  shows "(snd (snd (snd (fst (lookupServerNetworkID c terraformID tr)))) =
            Some errInvalidServerNetworkID
          \<longleftrightarrow> decode_fails terraformID) \<and>
         SplitN ''12-34-56'' CHR ''-'' 2 = [''12'', ''34-56''] \<and>
         Atoi ''12'' = Some 12 \<and> Atoi ''34-56'' = None \<and>
         snd (snd (snd (fst (lookupServerNetworkID c' ''12-34-56'' tr)))) =
            Some errInvalidServerNetworkID"
proof -
  have s: "SplitN ''12-34-56'' CHR ''-'' 2 = [''12'', ''34-56'']"
    by (simp add: numeral_2_eq_2)
  have a1: "Atoi ''12'' = Some 12" by (simp add: Atoi_def is_digit_def digit_value_def)
  have a2: "Atoi ''34-56'' = None" by (simp add: Atoi_def is_digit_def)
  have ex: "snd (snd (snd (fst (lookupServerNetworkID c' ''12-34-56'' tr)))) =
            Some errInvalidServerNetworkID"
    unfolding lookupServerNetworkID_def s Let_def using a1 a2
    by (auto split: option.splits prod.splits)
  have main: "snd (snd (snd (fst (lookupServerNetworkID c terraformID tr)))) =
            Some errInvalidServerNetworkID \<longleftrightarrow> decode_fails terraformID"
  proof (cases "decode_fails terraformID")
    case True
    then show ?thesis using lookup_decode_fails [of terraformID c tr] by simp
  next
    case False
    then obtain a b where ab: "SplitN terraformID CHR ''-'' 2 = [a, b]"
      using SplitN_length_2 [of terraformID "CHR ''-''"] by (auto simp: decode_fails_def)
    from False ab obtain serverID networkID where
      at: "Atoi a = Some serverID" "Atoi b = Some networkID" and ne: "terraformID \<noteq> []"
      by (auto simp: decode_fails_def)
    obtain srv where sv: "Server_GetByID c tr serverID = (Some srv, None)"
      using assms(1) [of tr serverID] by (cases "Server_GetByID c tr serverID") auto
    obtain nw nerr where
      nv: "Network_GetByID c (tr @ [CallServerGetByID serverID]) networkID = (Some nw, nerr)"
      using assms(2) [of "tr @ [CallServerGetByID serverID]" networkID]
      by (cases "Network_GetByID c (tr @ [CallServerGetByID serverID]) networkID") auto
    have "snd (snd (snd (fst (lookupServerNetworkID c terraformID tr)))) = map_option Api nerr"
      using ne ab at sv nv by (simp add: lookupServerNetworkID_def)
    then show ?thesis using False by (cases nerr) auto
  qed
  show ?thesis using s a1 a2 ex main by simp
qed

text \<open>
  Both directions on concrete identifiers: \<^verbatim>\<open>5-100\<close> decodes and is not answered with the
  sentinel, \<^verbatim>\<open>12\<close> has no dash and is.
\<close>

theorem decode_fails_exactly_when_witness:
  "\<not> decode_fails ''5-100'' \<and>
   snd (snd (snd (fst (lookupServerNetworkID env_found ''5-100'' [])))) \<noteq>
     Some errInvalidServerNetworkID \<and>
   decode_fails ''12'' \<and>
   snd (snd (snd (fst (lookupServerNetworkID env_found ''12'' [])))) =
     Some errInvalidServerNetworkID"
proof -
  have s: "\<And>t i. fst (Server_GetByID env_found t i) \<noteq> None \<and> snd (Server_GetByID env_found t i) = None"
    by (simp add: env_found_def)
  have n: "\<And>t i. fst (Network_GetByID env_found t i) \<noteq> None"
    by (simp add: env_found_def)
  have d1: "\<not> decode_fails ''5-100''"
    by (simp add: decode_fails_def numeral_2_eq_2 Atoi_def is_digit_def digit_value_def)
  have d2: "decode_fails ''12''"
    by (simp add: decode_fails_def numeral_2_eq_2)
  show ?thesis
    using d1 d2 decode_fails_exactly_when [OF s n, of "''5-100''" "[]"]
      decode_fails_exactly_when [OF s n, of "''12''" "[]"]
    by simp
qed

text \<open>
  Claim C10. The resolver never returns a \<^verbatim>\<open>nil\<close> server or a \<^verbatim>\<open>nil\<close> network together with a
  \<^verbatim>\<open>nil\<close> error: whenever one of the two is \<^verbatim>\<open>nil\<close> the error is the sentinel. Hence the
  branches of read and update that test for a \<^verbatim>\<open>nil\<close> server or network after the error
  checks are never taken: neither operation ever writes one of their log lines.
\<close>

theorem resolver_never_nil_without_error:
  "(case lookupServerNetworkID c terraformID tr of
      ((server, network, pn, err), tr') \<Rightarrow>
        (err = None \<longrightarrow> server \<noteq> None \<and> network \<noteq> None) \<and>
        (server = None \<or> network = None \<longrightarrow> err = Some errInvalidServerNetworkID)) \<and>
   filter nil_branch_log (snd (snd (resourceServerNetworkRead c d tr))) = filter nil_branch_log tr \<and>
   filter nil_branch_log (snd (snd (resourceServerNetworkUpdate c d tr))) = filter nil_branch_log tr"
proof -
  obtain server network pn err tr1 where
    l: "lookupServerNetworkID c terraformID tr = ((server, network, pn, err), tr1)"
    by (metis prod.exhaust)
  show ?thesis
    using lookup_err_None [OF l] Read_trace_logs [of c d tr] Update_trace_logs [of c d tr]
    by (simp add: l)
qed

text \<open>
  A resolution without error (both records present) and one with a \<^verbatim>\<open>nil\<close> network (the
  sentinel), and the traces of read and update on the first.
\<close>

theorem resolver_never_nil_without_error_witness:
  "lookupServerNetworkID env_found ''5-100'' [] =
     ((Some \<lparr>Server_ID = 5, Server_PrivateNet = []\<rparr>, Some \<lparr>Network_ID = 100\<rparr>, None, None),
      [CallServerGetByID 5, CallNetworkGetByID 100]) \<and>
   lookupServerNetworkID env_found ''12-34-56'' [] =
     ((Some \<lparr>Server_ID = 12, Server_PrivateNet = []\<rparr>, None, None, Some errInvalidServerNetworkID),
      [CallServerGetByID 12]) \<and>
   filter nil_branch_log (snd (snd (resourceServerNetworkRead env_found d_example []))) = [] \<and>
   filter nil_branch_log (snd (snd (resourceServerNetworkUpdate env_found d_example []))) = []"
proof -
  have a: "lookupServerNetworkID env_found ''5-100'' [] =
     ((Some \<lparr>Server_ID = 5, Server_PrivateNet = []\<rparr>, Some \<lparr>Network_ID = 100\<rparr>, None, None),
      [CallServerGetByID 5, CallNetworkGetByID 100])"
    by code_simp
  have b: "lookupServerNetworkID env_found ''12-34-56'' [] =
     ((Some \<lparr>Server_ID = 12, Server_PrivateNet = []\<rparr>, None, None, Some errInvalidServerNetworkID),
      [CallServerGetByID 12])"
    by code_simp
  show ?thesis
    using a b resolver_never_nil_without_error [of env_found "''5-100''" "[]" d_example]
      resolver_never_nil_without_error [of env_found "''12-34-56''" "[]" d_example]
    by simp
qed

subsection \<open>The retry loop and the wrapped calls\<close>

lemma retryable_Some: "retryable r \<Longrightarrow> \<exists>e. r = Some e"
  by (cases r) (auto simp: retryable_def)

lemma retry_from_step_retryable:
  assumes "fn s = (map_option Api r, s')" and "retryable r"
  shows "retry_from lasterr (Suc n) fn s = retry_from (map_option Api r) n fn s'"
  using assms retryable_Some [OF assms(2)] by auto

lemma retry_from_step_final:
  assumes "fn s = (abortRetry (map_option Api r), s')"
  shows "retry_from lasterr (Suc n) fn s = (map_option Api r, s')"
  using assms by (cases r) (auto simp: abortRetry_def)

lemma retry_from_settles:
  assumes step: "\<And>a t. fn (a, t) =
             (if retryable (snd (F t)) then map_option Api (snd (F t))
              else abortRetry (map_option Api (snd (F t))), (fst (F t), t @ [cl]))"
    and "\<forall>i<k. retryable (snd (F (tr @ replicate i cl)))"
    and "\<not> retryable (snd (F (tr @ replicate k cl)))"
    and "k < n"
  shows "retry_from lasterr n fn (a, tr) =
           (map_option Api (snd (F (tr @ replicate k cl))),
            (fst (F (tr @ replicate k cl)), tr @ replicate (Suc k) cl))"
  using assms(2-)
proof (induction k arbitrary: n tr lasterr a)
  case 0
  then obtain m where n: "n = Suc m" by (cases n) auto
  have "fn (a, tr) = (abortRetry (map_option Api (snd (F tr))), (fst (F tr), tr @ [cl]))"
    using 0 step [of a tr] by simp
  then have "retry_from lasterr (Suc m) fn (a, tr) = (map_option Api (snd (F tr)), (fst (F tr), tr @ [cl]))"
    by (rule retry_from_step_final)
  then show ?case unfolding n by (simp del: retry_from.simps)
next
  case (Suc k)
  then obtain m where n: "n = Suc m" and km: "k < m" by (cases n) auto
  have r0: "retryable (snd (F tr))" using Suc.prems(1) by (elim allE [of _ 0]) simp
  have f: "fn (a, tr) = (map_option Api (snd (F tr)), (fst (F tr), tr @ [cl]))"
    using r0 step [of a tr] by simp
  have later: "\<forall>i<k. retryable (snd (F ((tr @ [cl]) @ replicate i cl)))"
  proof (intro allI impI)
    fix i assume "i < k"
    then have "Suc i < Suc k" by simp
    with Suc.prems(1) have "retryable (snd (F (tr @ replicate (Suc i) cl)))" by blast
    then show "retryable (snd (F ((tr @ [cl]) @ replicate i cl)))" by simp
  qed
  have fin: "\<not> retryable (snd (F ((tr @ [cl]) @ replicate k cl)))" using Suc.prems(2) by simp
  have "retry_from lasterr n fn (a, tr) =
          retry_from (map_option Api (snd (F tr))) m fn (fst (F tr), tr @ [cl])"
    unfolding n using f r0 by (rule retry_from_step_retryable)
  also have "\<dots> = (map_option Api (snd (F ((tr @ [cl]) @ replicate k cl))),
            (fst (F ((tr @ [cl]) @ replicate k cl)), (tr @ [cl]) @ replicate (Suc k) cl))"
    using later fin km by (rule Suc.IH)
  finally show ?case by simp
qed

lemma retry_from_exhausts:
  assumes step: "\<And>a t. fn (a, t) =
             (if retryable (snd (F t)) then map_option Api (snd (F t))
              else abortRetry (map_option Api (snd (F t))), (fst (F t), t @ [cl]))"
    and "\<forall>i<n. retryable (snd (F (tr @ replicate i cl)))"
    and "0 < n"
  shows "retry_from lasterr n fn (a, tr) =
           (map_option Api (snd (F (tr @ replicate (n - 1) cl))),
            (fst (F (tr @ replicate (n - 1) cl)), tr @ replicate n cl))"
  using assms(2-)
proof (induction n arbitrary: tr lasterr a)
  case 0
  then show ?case by simp
next
  case (Suc m)
  have r0: "retryable (snd (F tr))" using Suc.prems(1) by (elim allE [of _ 0]) simp
  have f: "fn (a, tr) = (map_option Api (snd (F tr)), (fst (F tr), tr @ [cl]))"
    using r0 step [of a tr] by simp
  have st: "retry_from lasterr (Suc m) fn (a, tr) =
          retry_from (map_option Api (snd (F tr))) m fn (fst (F tr), tr @ [cl])"
    using f r0 by (rule retry_from_step_retryable)
  have later: "\<forall>i<m. retryable (snd (F ((tr @ [cl]) @ replicate i cl)))"
  proof (intro allI impI)
    fix i assume "i < m"
    then have "Suc i < Suc m" by simp
    with Suc.prems(1) have "retryable (snd (F (tr @ replicate (Suc i) cl)))" by blast
    then show "retryable (snd (F ((tr @ [cl]) @ replicate i cl)))" by simp
  qed
  show ?case
  proof (cases "m = 0")
    case True
    then show ?thesis using st by (simp del: retry_from.simps) simp
  next
    case False
    then obtain j where j: "m = Suc j" by (cases m) auto
    have "retry_from (map_option Api (snd (F tr))) m fn (fst (F tr), tr @ [cl]) =
           (map_option Api (snd (F ((tr @ [cl]) @ replicate (m - 1) cl))),
            (fst (F ((tr @ [cl]) @ replicate (m - 1) cl)), (tr @ [cl]) @ replicate m cl))"
      using later False by (intro Suc.IH) simp_all
    then show ?thesis using st j by (simp del: retry_from.simps)
  qed
qed

lemma attach_func1_step:
  "attachServerToNetwork_func1 c srv opts (a, t) =
     (if retryable (snd (Server_AttachToNetwork c t (Some srv) opts))
      then map_option Api (snd (Server_AttachToNetwork c t (Some srv) opts))
      else abortRetry (map_option Api (snd (Server_AttachToNetwork c t (Some srv) opts))),
      (fst (Server_AttachToNetwork c t (Some srv) opts), t @ [CallAttachToNetwork (Some srv) opts]))"
  by (auto simp: attachServerToNetwork_func1_def retryable_def abortRetry_def Let_def
      split: prod.splits)

lemma delete_func1_step:
  "resourceServerNetworkDelete_func1 c server network (a, t) =
     (if retryable (snd (Server_DetachFromNetwork c t server \<lparr>Detach_Network = network\<rparr>))
      then map_option Api (snd (Server_DetachFromNetwork c t server \<lparr>Detach_Network = network\<rparr>))
      else abortRetry
             (map_option Api (snd (Server_DetachFromNetwork c t server \<lparr>Detach_Network = network\<rparr>))),
      (fst (Server_DetachFromNetwork c t server \<lparr>Detach_Network = network\<rparr>),
       t @ [CallDetachFromNetwork server \<lparr>Detach_Network = network\<rparr>]))"
  by (auto simp: resourceServerNetworkDelete_func1_def retryable_def Let_def split: prod.splits)

lemma retry_attach_settles:
  assumes "\<forall>i<k. retryable (snd (Server_AttachToNetwork c (tr @ replicate i cl) (Some srv) opts))"
    and "\<not> retryable (snd (Server_AttachToNetwork c (tr @ replicate k cl) (Some srv) opts))"
    and "k < n"
    and "cl = CallAttachToNetwork (Some srv) opts"
  shows "retry n (attachServerToNetwork_func1 c srv opts) (a, tr) =
           (map_option Api (snd (Server_AttachToNetwork c (tr @ replicate k cl) (Some srv) opts)),
            (fst (Server_AttachToNetwork c (tr @ replicate k cl) (Some srv) opts),
             tr @ replicate (Suc k) cl))"
  unfolding retry_def
  by (rule retry_from_settles
        [where F = "\<lambda>t. Server_AttachToNetwork c t (Some srv) opts" and cl = cl,
         OF _ assms(1,2,3)])
     (simp add: attach_func1_step assms(4))


lemma retry_detach_settles:
  assumes "\<forall>i<k. retryable (snd (Server_DetachFromNetwork c (tr @ replicate i cl) server opts))"
    and "\<not> retryable (snd (Server_DetachFromNetwork c (tr @ replicate k cl) server opts))"
    and "k < n"
    and "opts = \<lparr>Detach_Network = network\<rparr>"
    and "cl = CallDetachFromNetwork server opts"
  shows "retry n (resourceServerNetworkDelete_func1 c server network) (a, tr) =
           (map_option Api (snd (Server_DetachFromNetwork c (tr @ replicate k cl) server opts)),
            (fst (Server_DetachFromNetwork c (tr @ replicate k cl) server opts),
             tr @ replicate (Suc k) cl))"
  unfolding retry_def
  by (rule retry_from_settles
        [where F = "\<lambda>t. Server_DetachFromNetwork c t server opts" and cl = cl,
         OF _ assms(1,2,3)])
     (simp add: delete_func1_step assms(4,5))

lemma retry_detach_exhausts:
  assumes "\<forall>i<n. retryable (snd (Server_DetachFromNetwork c (tr @ replicate i cl) server opts))"
    and "0 < n"
    and "opts = \<lparr>Detach_Network = network\<rparr>"
    and "cl = CallDetachFromNetwork server opts"
  shows "retry n (resourceServerNetworkDelete_func1 c server network) (a, tr) =
           (map_option Api (snd (Server_DetachFromNetwork c (tr @ replicate (n - 1) cl) server opts)),
            (fst (Server_DetachFromNetwork c (tr @ replicate (n - 1) cl) server opts),
             tr @ replicate n cl))"
  unfolding retry_def
  by (rule retry_from_exhausts
        [where F = "\<lambda>t. Server_DetachFromNetwork c t server opts" and cl = cl,
         OF _ assms(1,2)])
     (simp add: delete_func1_step assms(3,4))

lemma retry_from_detach_result:
  "fst (retry_from lasterr n (resourceServerNetworkDelete_func1 c server network) s) = lasterr \<or>
   (\<exists>t. fst (retry_from lasterr n (resourceServerNetworkDelete_func1 c server network) s) =
          map_option Api (snd (Server_DetachFromNetwork c t server \<lparr>Detach_Network = network\<rparr>)))"
proof (induction n arbitrary: lasterr s)
  case 0
  then show ?case by simp
next
  case (Suc n)
  obtain a t where s: "s = (a, t)" by (cases s)
  let ?r = "Server_DetachFromNetwork c t server \<lparr>Detach_Network = network\<rparr>"
  let ?s' = "(fst ?r, t @ [CallDetachFromNetwork server \<lparr>Detach_Network = network\<rparr>])"
  show ?case
  proof (cases "retryable (snd ?r)")
    case True
    have "retry_from lasterr (Suc n) (resourceServerNetworkDelete_func1 c server network) s =
            retry_from (map_option Api (snd ?r)) n (resourceServerNetworkDelete_func1 c server network) ?s'"
      unfolding s using True by (intro retry_from_step_retryable) (simp_all add: delete_func1_step)
    then show ?thesis
      using Suc.IH [of "map_option Api (snd ?r)" ?s'] by auto
  next
    case False
    have "retry_from lasterr (Suc n) (resourceServerNetworkDelete_func1 c server network) s =
            (map_option Api (snd ?r), ?s')"
      unfolding s using False by (intro retry_from_step_final) (simp add: delete_func1_step)
    then show ?thesis by auto
  qed
qed


lemma delete_after_retry:
  assumes "lookupServerNetworkID c (d_Id d) tr = ((server, network, pn, None), tr1)"
    and "retry (defaultMaxRetries c) (resourceServerNetworkDelete_func1 c server network) (None, tr1) =
           (rerr, action, tr2)"
  shows "resourceServerNetworkDelete c d tr =
           (if IsError rerr ErrorCodeNotFound then (None, d, tr2)
            else case rerr of
                   Some e \<Rightarrow> (Some e, d, tr2)
                 | None \<Rightarrow>
                     (map_option Api (waitForNetworkAction c tr2 action network), d,
                      tr2 @ [CallWaitForNetworkAction action network]))"
  unfolding resourceServerNetworkDelete_def assms(1)
  by (simp add: assms(2) split: option.splits)

lemma retryable_not_other:
  assumes "retryable r"
  shows "\<not> IsError (map_option Api r) ErrorCodeServerAlreadyAttached"
    and "\<not> IsError (map_option Api r) ErrorCodeNotFound"
    and "map_option Api r \<noteq> None"
  using assms by (cases r; cases "the r"; auto simp: retryable_def)+



lemma delete_settles:
  assumes "lookupServerNetworkID c (d_Id d) tr = ((server, network, pn, None), tr1)"
    and "opts = \<lparr>Detach_Network = network\<rparr>"
    and "cl = CallDetachFromNetwork server opts"
    and "\<forall>i<k. retryable (snd (Server_DetachFromNetwork c (tr1 @ replicate i cl) server opts))"
    and "k < defaultMaxRetries c"
    and "Server_DetachFromNetwork c (tr1 @ replicate k cl) server opts = (a, r)"
    and "\<not> retryable r"
  shows "resourceServerNetworkDelete c d tr =
           (if IsError (map_option Api r) ErrorCodeNotFound
            then (None, d, tr1 @ replicate (Suc k) cl)
            else case r of
                   Some e \<Rightarrow> (Some (Api e), d, tr1 @ replicate (Suc k) cl)
                 | None \<Rightarrow>
                     (map_option Api (waitForNetworkAction c (tr1 @ replicate (Suc k) cl) a network), d,
                      tr1 @ replicate (Suc k) cl @ [CallWaitForNetworkAction a network]))"
proof -
  have nr: "\<not> retryable (snd (Server_DetachFromNetwork c (tr1 @ replicate k cl) server opts))"
    using assms(6,7) by simp
  have r: "retry (defaultMaxRetries c) (resourceServerNetworkDelete_func1 c server network) (None, tr1) =
            (map_option Api r, a, tr1 @ replicate (Suc k) cl)"
    using retry_detach_settles [OF assms(4) nr assms(5) assms(2,3), of None] assms(6) by simp
  show ?thesis
    unfolding delete_after_retry [OF assms(1) r]
    by (cases r) (simp_all del: replicate.simps)
qed

lemma delete_exhausts:
  assumes "lookupServerNetworkID c (d_Id d) tr = ((server, network, pn, None), tr1)"
    and "opts = \<lparr>Detach_Network = network\<rparr>"
    and "cl = CallDetachFromNetwork server opts"
    and "\<forall>i<defaultMaxRetries c.
           retryable (snd (Server_DetachFromNetwork c (tr1 @ replicate i cl) server opts))"
    and "0 < defaultMaxRetries c"
    and "snd (Server_DetachFromNetwork c (tr1 @ replicate (defaultMaxRetries c - 1) cl) server opts) = r"
  shows "resourceServerNetworkDelete c d tr =
           (map_option Api r, d, tr1 @ replicate (defaultMaxRetries c) cl) \<and> retryable r"
proof -
  have rr: "retryable r" using assms(4,5,6) by (metis diff_less zero_less_one)
  then obtain e where e: "r = Some e" using retryable_Some by blast
  have r: "retry (defaultMaxRetries c) (resourceServerNetworkDelete_func1 c server network) (None, tr1) =
            (map_option Api r,
             fst (Server_DetachFromNetwork c (tr1 @ replicate (defaultMaxRetries c - 1) cl) server opts),
             tr1 @ replicate (defaultMaxRetries c) cl)"
    using retry_detach_exhausts [OF assms(4,5,2,3), of None] assms(6) by simp
  show ?thesis
    unfolding delete_after_retry [OF assms(1) r]
    using retryable_not_other [OF rr] rr by (simp add: e)
qed



text \<open>
  Claim C7. When the attach call, after \<open>k\<close> retryable answers and within the attempts
  allowed, is answered with an error that is not retryable: if the error says the server is
  already attached, \<^verbatim>\<open>attachServerToNetwork\<close> returns no error, logs the fact and waits for no
  action; otherwise it returns that error wrapped by
  \<^verbatim>\<open>fmt.Errorf("attach server to network: %v", err)\<close>.
\<close>

theorem attach_already_attached_is_success:
  assumes "opts = \<lparr>Attach_Network = Some nw, Attach_IP = ip, Attach_AliasIPs = aliasIPs\<rparr>"
    and "cl = CallAttachToNetwork (Some srv) opts"
    and "\<forall>i<k. retryable (snd (Server_AttachToNetwork c (tr @ replicate i cl) (Some srv) opts))"
    and "k < defaultMaxRetries c"
    and "Server_AttachToNetwork c (tr @ replicate k cl) (Some srv) opts = (a, Some e)"
    and "\<not> retryable (Some e)"
  shows "(IsError (Some (Api e)) ErrorCodeServerAlreadyAttached \<longrightarrow>
            attachServerToNetwork c srv nw ip aliasIPs tr =
              (None, tr @ replicate (Suc k) cl @
                 [LogPrintf ''[INFO] Server (%v) already attachted to network %v''
                    [ArgInt (Server_ID srv), ArgInt (Network_ID nw)]]) \<and>
            filter is_wait_call (snd (attachServerToNetwork c srv nw ip aliasIPs tr)) =
              filter is_wait_call tr) \<and>
         (\<not> IsError (Some (Api e)) ErrorCodeServerAlreadyAttached \<longrightarrow>
            attachServerToNetwork c srv nw ip aliasIPs tr =
              (Some (Errorf ''attach server to network: %v'' (Api e)), tr @ replicate (Suc k) cl))"
proof -
  have nr: "\<not> retryable (snd (Server_AttachToNetwork c (tr @ replicate k cl) (Some srv) opts))"
    using assms(5,6) by simp
  have r: "retry (defaultMaxRetries c) (attachServerToNetwork_func1 c srv opts) (None, tr) =
            (Some (Api e), (a, tr @ replicate (Suc k) cl))"
    using retry_attach_settles [OF assms(3) nr assms(4) assms(2), of None] assms(5) by simp
  have w: "filter is_wait_call (replicate k cl) = []"
    by (simp add: assms(2) is_wait_call_def)
  show ?thesis
    unfolding attachServerToNetwork_def Let_def assms(1) [symmetric] r
    using w by (simp add: is_wait_call_def assms(2))
qed

text \<open>An attach answered with \<^verbatim>\<open>locked\<close> and then with "already attached".\<close>

theorem attach_already_attached_is_success_witness:
  "attachServerToNetwork env_attach_locked_then_attached
     \<lparr>Server_ID = 5, Server_PrivateNet = []\<rparr> \<lparr>Network_ID = 100\<rparr> [] [] [] =
     (None,
      [CallAttachToNetwork (Some \<lparr>Server_ID = 5, Server_PrivateNet = []\<rparr>)
         \<lparr>Attach_Network = Some \<lparr>Network_ID = 100\<rparr>, Attach_IP = [], Attach_AliasIPs = []\<rparr>,
       CallAttachToNetwork (Some \<lparr>Server_ID = 5, Server_PrivateNet = []\<rparr>)
         \<lparr>Attach_Network = Some \<lparr>Network_ID = 100\<rparr>, Attach_IP = [], Attach_AliasIPs = []\<rparr>,
       LogPrintf ''[INFO] Server (%v) already attachted to network %v'' [ArgInt 5, ArgInt 100]])"
proof -
  let ?srv = "\<lparr>Server_ID = 5, Server_PrivateNet = []\<rparr>"
  let ?nw = "\<lparr>Network_ID = 100\<rparr>"
  let ?opts = "\<lparr>Attach_Network = Some ?nw, Attach_IP = [], Attach_AliasIPs = []\<rparr>"
  let ?cl = "CallAttachToNetwork (Some ?srv) ?opts"
  let ?e = "HcloudError ErrorCodeServerAlreadyAttached ''already attached''"
  have h3: "\<forall>i<1. retryable (snd (Server_AttachToNetwork env_attach_locked_then_attached
                                     ([] @ replicate i ?cl) (Some ?srv) ?opts))"
    by (simp add: env_attach_locked_then_attached_def env_found_def retryable_def)
  have h4: "1 < defaultMaxRetries env_attach_locked_then_attached"
    by (simp add: env_attach_locked_then_attached_def env_found_def)
  have h5: "Server_AttachToNetwork env_attach_locked_then_attached ([] @ replicate 1 ?cl) (Some ?srv) ?opts =
              (None, Some ?e)"
    by (simp add: env_attach_locked_then_attached_def env_found_def is_attach_call_def)
  have h6: "\<not> retryable (Some ?e)" by (simp add: retryable_def)
  show ?thesis
    using attach_already_attached_is_success [OF refl refl h3 h4 h5 h6]
    by (simp add: numeral_2_eq_2)
qed

lemma delete_bound:
  assumes "lookupServerNetworkID c (d_Id d) tr = ((server, network, pn, err), tr1)"
    and "opts = \<lparr>Detach_Network = network\<rparr>"
    and "cl = CallDetachFromNetwork server opts"
  shows "(\<forall>e. err = Some e \<longrightarrow>
            resourceServerNetworkDelete c d tr =
              (None, d\<lparr>d_Id := []\<rparr>,
               tr1 @ [LogPrintf ''[WARN] Invalid id (%s), removing from state: %s''
                        [ArgString (d_Id d), ArgErr e]])) \<and>
         (err = None \<and>
          (\<forall>i<k. retryable (snd (Server_DetachFromNetwork c (tr1 @ replicate i cl) server opts))) \<and>
          k < defaultMaxRetries c \<and>
          Server_DetachFromNetwork c (tr1 @ replicate k cl) server opts =
            (a, Some (HcloudError ErrorCodeNotFound m)) \<longrightarrow>
            resourceServerNetworkDelete c d tr = (None, d, tr1 @ replicate (Suc k) cl)) \<and>
         (fst (resourceServerNetworkDelete c d tr) = Some x \<longrightarrow>
            err = None \<and>
            ((\<exists>t e. snd (Server_DetachFromNetwork c t server opts) = Some e \<and> x = Api e \<and>
                    \<not> IsError (Some x) ErrorCodeNotFound) \<or>
             (\<exists>t action w. waitForNetworkAction c t action network = Some w \<and> x = Api w)))"
proof (intro conjI allI impI)
  fix e assume "err = Some e"
  then show "resourceServerNetworkDelete c d tr =
              (None, d\<lparr>d_Id := []\<rparr>,
               tr1 @ [LogPrintf ''[WARN] Invalid id (%s), removing from state: %s''
                        [ArgString (d_Id d), ArgErr e]])"
    by (simp add: resourceServerNetworkDelete_def assms(1))
next
  assume h: "err = None \<and>
          (\<forall>i<k. retryable (snd (Server_DetachFromNetwork c (tr1 @ replicate i cl) server opts))) \<and>
          k < defaultMaxRetries c \<and>
          Server_DetachFromNetwork c (tr1 @ replicate k cl) server opts =
            (a, Some (HcloudError ErrorCodeNotFound m))"
  then have nr: "\<not> retryable (snd (Server_DetachFromNetwork c (tr1 @ replicate k cl) server opts))"
    by (simp add: retryable_def)
  have r: "retry (defaultMaxRetries c) (resourceServerNetworkDelete_func1 c server network) (None, tr1) =
             (Some (Api (HcloudError ErrorCodeNotFound m)), (a, tr1 @ replicate (Suc k) cl))"
    using retry_detach_settles [OF _ nr _ assms(2,3), of "defaultMaxRetries c" None] h by simp
  show "resourceServerNetworkDelete c d tr = (None, d, tr1 @ replicate (Suc k) cl)"
    using h by (simp add: resourceServerNetworkDelete_def assms(1) r del: replicate.simps)
next
  assume x: "fst (resourceServerNetworkDelete c d tr) = Some x"
  show "err = None"
  proof (rule ccontr)
    assume "err \<noteq> None"
    then obtain e where "err = Some e" by auto
    then show False using x by (simp add: resourceServerNetworkDelete_def assms(1))
  qed
next
  assume x: "fst (resourceServerNetworkDelete c d tr) = Some x"
  have en: "err = None"
  proof (rule ccontr)
    assume "err \<noteq> None"
    then obtain e where "err = Some e" by auto
    then show False using x by (simp add: resourceServerNetworkDelete_def assms(1))
  qed
  obtain rerr action tr2 where
    r: "retry (defaultMaxRetries c) (resourceServerNetworkDelete_func1 c server network) (None, tr1) =
          (rerr, action, tr2)"
    by (metis prod.exhaust)
  have res: "rerr = None \<or>
             (\<exists>t. rerr = map_option Api (snd (Server_DetachFromNetwork c t server opts)))"
    using retry_from_detach_result [of None "defaultMaxRetries c" c server network "(None, tr1)"] r
    by (simp add: retry_def assms(2))
  show "(\<exists>t e. snd (Server_DetachFromNetwork c t server opts) = Some e \<and> x = Api e \<and>
                \<not> IsError (Some x) ErrorCodeNotFound) \<or>
        (\<exists>t action w. waitForNetworkAction c t action network = Some w \<and> x = Api w)"
  proof (cases rerr)
    case None
    then have "map_option Api (waitForNetworkAction c tr2 action network) = Some x"
      using x en by (simp add: resourceServerNetworkDelete_def assms(1) r split: option.splits)
    then show ?thesis by auto
  next
    case (Some y)
    then have nf: "\<not> IsError (Some y) ErrorCodeNotFound" and xy: "x = y"
      using x en by (auto simp: resourceServerNetworkDelete_def assms(1) r split: if_splits)
    from res Some obtain t where "Some y = map_option Api (snd (Server_DetachFromNetwork c t server opts))"
      by auto
    then obtain e where "snd (Server_DetachFromNetwork c t server opts) = Some e" "y = Api e"
      by (cases "snd (Server_DetachFromNetwork c t server opts)") auto
    then show ?thesis using nf xy by auto
  qed
qed

text \<open>
  Claim C8. In \<^verbatim>\<open>resourceServerNetworkDelete\<close>: any error of the resolver makes the operation
  clear the id, log and return no error, without a detach call; a detach call answered,
  after \<open>k\<close> retryable answers and within the attempts allowed, with \<^verbatim>\<open>not_found\<close> makes it
  return no error; and whenever it does return an error, the resolver had succeeded and
  the error is either the error of a detach call, not \<^verbatim>\<open>not_found\<close>, or the error of
  \<^verbatim>\<open>waitForNetworkAction\<close>. These errors do surface: a detach answer, after \<open>k\<close> retryable
  ones, that is an error neither retryable nor \<^verbatim>\<open>not_found\<close> is returned as it is, with no
  further call; after a successful detach answer the action it returned is awaited, by
  exactly one call of \<^verbatim>\<open>waitForNetworkAction\<close>, and the operation returns what that call
  returns, an error of the action included; and when all \<^verbatim>\<open>defaultMaxRetries\<close> answers are
  retryable the last of them is returned.
\<close>

theorem delete_tolerates_already_gone:
  assumes "lookupServerNetworkID c (d_Id d) tr = ((server, network, pn, err), tr1)"
    and "opts = \<lparr>Detach_Network = network\<rparr>"
    and "cl = CallDetachFromNetwork server opts"
  shows "(\<forall>e. err = Some e \<longrightarrow>
            resourceServerNetworkDelete c d tr =
              (None, d\<lparr>d_Id := []\<rparr>,
               tr1 @ [LogPrintf ''[WARN] Invalid id (%s), removing from state: %s''
                        [ArgString (d_Id d), ArgErr e]])) \<and>
         (err = None \<and>
          (\<forall>i<k. retryable (snd (Server_DetachFromNetwork c (tr1 @ replicate i cl) server opts))) \<and>
          k < defaultMaxRetries c \<and>
          Server_DetachFromNetwork c (tr1 @ replicate k cl) server opts =
            (a, Some (HcloudError ErrorCodeNotFound m)) \<longrightarrow>
            resourceServerNetworkDelete c d tr = (None, d, tr1 @ replicate (Suc k) cl)) \<and>
         (fst (resourceServerNetworkDelete c d tr) = Some x \<longrightarrow>
            err = None \<and>
            ((\<exists>t e. snd (Server_DetachFromNetwork c t server opts) = Some e \<and> x = Api e \<and>
                    \<not> IsError (Some x) ErrorCodeNotFound) \<or>
             (\<exists>t action w. waitForNetworkAction c t action network = Some w \<and> x = Api w))) \<and>
         (err = None \<and>
          (\<forall>i<k. retryable (snd (Server_DetachFromNetwork c (tr1 @ replicate i cl) server opts))) \<and>
          k < defaultMaxRetries c \<and>
          Server_DetachFromNetwork c (tr1 @ replicate k cl) server opts = (a, Some e') \<and>
          \<not> retryable (Some e') \<and> \<not> IsError (Some (Api e')) ErrorCodeNotFound \<longrightarrow>
            resourceServerNetworkDelete c d tr = (Some (Api e'), d, tr1 @ replicate (Suc k) cl)) \<and>
         (err = None \<and>
          (\<forall>i<k. retryable (snd (Server_DetachFromNetwork c (tr1 @ replicate i cl) server opts))) \<and>
          k < defaultMaxRetries c \<and>
          Server_DetachFromNetwork c (tr1 @ replicate k cl) server opts = (a, None) \<longrightarrow>
            resourceServerNetworkDelete c d tr =
              (map_option Api (waitForNetworkAction c (tr1 @ replicate (Suc k) cl) a network), d,
               tr1 @ replicate (Suc k) cl @ [CallWaitForNetworkAction a network])) \<and>
         (err = None \<and>
          (\<forall>i<defaultMaxRetries c.
              retryable (snd (Server_DetachFromNetwork c (tr1 @ replicate i cl) server opts))) \<and>
          0 < defaultMaxRetries c \<longrightarrow>
            resourceServerNetworkDelete c d tr =
              (map_option Api
                 (snd (Server_DetachFromNetwork c (tr1 @ replicate (defaultMaxRetries c - 1) cl)
                         server opts)),
               d, tr1 @ replicate (defaultMaxRetries c) cl) \<and>
            retryable (snd (Server_DetachFromNetwork c (tr1 @ replicate (defaultMaxRetries c - 1) cl)
                              server opts)))"
proof -
  have old: "(\<forall>e. err = Some e \<longrightarrow>
            resourceServerNetworkDelete c d tr =
              (None, d\<lparr>d_Id := []\<rparr>,
               tr1 @ [LogPrintf ''[WARN] Invalid id (%s), removing from state: %s''
                        [ArgString (d_Id d), ArgErr e]])) \<and>
         (err = None \<and>
          (\<forall>i<k. retryable (snd (Server_DetachFromNetwork c (tr1 @ replicate i cl) server opts))) \<and>
          k < defaultMaxRetries c \<and>
          Server_DetachFromNetwork c (tr1 @ replicate k cl) server opts =
            (a, Some (HcloudError ErrorCodeNotFound m)) \<longrightarrow>
            resourceServerNetworkDelete c d tr = (None, d, tr1 @ replicate (Suc k) cl)) \<and>
         (fst (resourceServerNetworkDelete c d tr) = Some x \<longrightarrow>
            err = None \<and>
            ((\<exists>t e. snd (Server_DetachFromNetwork c t server opts) = Some e \<and> x = Api e \<and>
                    \<not> IsError (Some x) ErrorCodeNotFound) \<or>
             (\<exists>t action w. waitForNetworkAction c t action network = Some w \<and> x = Api w)))"
    using assms by (rule delete_bound)
  have surf: "err = None \<and>
          (\<forall>i<k. retryable (snd (Server_DetachFromNetwork c (tr1 @ replicate i cl) server opts))) \<and>
          k < defaultMaxRetries c \<and>
          Server_DetachFromNetwork c (tr1 @ replicate k cl) server opts = (a, Some e') \<and>
          \<not> retryable (Some e') \<and> \<not> IsError (Some (Api e')) ErrorCodeNotFound \<longrightarrow>
            resourceServerNetworkDelete c d tr = (Some (Api e'), d, tr1 @ replicate (Suc k) cl)"
  proof
    assume h: "err = None \<and>
          (\<forall>i<k. retryable (snd (Server_DetachFromNetwork c (tr1 @ replicate i cl) server opts))) \<and>
          k < defaultMaxRetries c \<and>
          Server_DetachFromNetwork c (tr1 @ replicate k cl) server opts = (a, Some e') \<and>
          \<not> retryable (Some e') \<and> \<not> IsError (Some (Api e')) ErrorCodeNotFound"
    then have l: "lookupServerNetworkID c (d_Id d) tr = ((server, network, pn, None), tr1)"
      using assms(1) by simp
    show "resourceServerNetworkDelete c d tr = (Some (Api e'), d, tr1 @ replicate (Suc k) cl)"
      using h delete_settles [OF l assms(2,3), of k a "Some e'"] by (simp del: replicate.simps)
  qed
  have wait: "err = None \<and>
          (\<forall>i<k. retryable (snd (Server_DetachFromNetwork c (tr1 @ replicate i cl) server opts))) \<and>
          k < defaultMaxRetries c \<and>
          Server_DetachFromNetwork c (tr1 @ replicate k cl) server opts = (a, None) \<longrightarrow>
            resourceServerNetworkDelete c d tr =
              (map_option Api (waitForNetworkAction c (tr1 @ replicate (Suc k) cl) a network), d,
               tr1 @ replicate (Suc k) cl @ [CallWaitForNetworkAction a network])"
  proof
    assume h: "err = None \<and>
          (\<forall>i<k. retryable (snd (Server_DetachFromNetwork c (tr1 @ replicate i cl) server opts))) \<and>
          k < defaultMaxRetries c \<and>
          Server_DetachFromNetwork c (tr1 @ replicate k cl) server opts = (a, None)"
    then have l: "lookupServerNetworkID c (d_Id d) tr = ((server, network, pn, None), tr1)"
      using assms(1) by simp
    have nr: "\<not> retryable None" by (simp add: retryable_def)
    show "resourceServerNetworkDelete c d tr =
              (map_option Api (waitForNetworkAction c (tr1 @ replicate (Suc k) cl) a network), d,
               tr1 @ replicate (Suc k) cl @ [CallWaitForNetworkAction a network])"
      using h nr delete_settles [OF l assms(2,3), of k a None] by (simp del: replicate.simps)
  qed
  have exh: "err = None \<and>
          (\<forall>i<defaultMaxRetries c.
              retryable (snd (Server_DetachFromNetwork c (tr1 @ replicate i cl) server opts))) \<and>
          0 < defaultMaxRetries c \<longrightarrow>
            resourceServerNetworkDelete c d tr =
              (map_option Api
                 (snd (Server_DetachFromNetwork c (tr1 @ replicate (defaultMaxRetries c - 1) cl)
                         server opts)),
               d, tr1 @ replicate (defaultMaxRetries c) cl) \<and>
            retryable (snd (Server_DetachFromNetwork c (tr1 @ replicate (defaultMaxRetries c - 1) cl)
                              server opts))"
  proof
    assume h: "err = None \<and>
          (\<forall>i<defaultMaxRetries c.
              retryable (snd (Server_DetachFromNetwork c (tr1 @ replicate i cl) server opts))) \<and>
          0 < defaultMaxRetries c"
    then have l: "lookupServerNetworkID c (d_Id d) tr = ((server, network, pn, None), tr1)"
      using assms(1) by simp
    from h have h1: "\<forall>i<defaultMaxRetries c.
              retryable (snd (Server_DetachFromNetwork c (tr1 @ replicate i cl) server opts))"
      and h2: "0 < defaultMaxRetries c" by simp_all
    show "resourceServerNetworkDelete c d tr =
              (map_option Api
                 (snd (Server_DetachFromNetwork c (tr1 @ replicate (defaultMaxRetries c - 1) cl)
                         server opts)),
               d, tr1 @ replicate (defaultMaxRetries c) cl) \<and>
            retryable (snd (Server_DetachFromNetwork c (tr1 @ replicate (defaultMaxRetries c - 1) cl)
                              server opts))"
      by (rule delete_exhausts [OF l assms(2,3) h1 h2 refl])
  qed
  show ?thesis using old surf wait exh by blast
qed

text \<open>
  A delete whose server is gone; one whose detach call is answered with \<^verbatim>\<open>locked\<close> and then
  \<^verbatim>\<open>not_found\<close>; one whose detach call is refused; one whose detach succeeds and whose
  action then fails; and one that surfaces the conflict left when the attempts are used up.
\<close>

theorem delete_tolerates_already_gone_witness:
  "resourceServerNetworkDelete env_server_gone d_example [] =
     (None, d_example\<lparr>d_Id := []\<rparr>,
      [CallServerGetByID 5,
       LogPrintf ''[WARN] Invalid id (%s), removing from state: %s''
         [ArgString ''5-100'', ArgErr errInvalidServerNetworkID]]) \<and>
   resourceServerNetworkDelete env_detach_locked_then_gone d_example [] =
     (None, d_example,
      [CallServerGetByID 5, CallNetworkGetByID 100,
       CallDetachFromNetwork (fst (Server_GetByID env_attached [] 5))
         \<lparr>Detach_Network = Some \<lparr>Network_ID = 100\<rparr>\<rparr>,
       CallDetachFromNetwork (fst (Server_GetByID env_attached [] 5))
         \<lparr>Detach_Network = Some \<lparr>Network_ID = 100\<rparr>\<rparr>]) \<and>
   resourceServerNetworkDelete env_detach_forbidden d_example [] =
     (Some (Api (HcloudError (ErrorCodeOther ''forbidden'') ''insufficient permissions'')), d_example,
      [CallServerGetByID 5, CallNetworkGetByID 100,
       CallDetachFromNetwork (fst (Server_GetByID env_attached [] 5))
         \<lparr>Detach_Network = Some \<lparr>Network_ID = 100\<rparr>\<rparr>]) \<and>
   resourceServerNetworkDelete env_wait_fails d_example [] =
     (Some (Api (ForeignError ''action failed'')), d_example,
      [CallServerGetByID 5, CallNetworkGetByID 100,
       CallDetachFromNetwork (fst (Server_GetByID env_attached [] 5))
         \<lparr>Detach_Network = Some \<lparr>Network_ID = 100\<rparr>\<rparr>,
       CallWaitForNetworkAction (Some \<lparr>Action_ID = 2\<rparr>) (Some \<lparr>Network_ID = 100\<rparr>)]) \<and>
   resourceServerNetworkDelete env_always_locked d_example [] =
     (Some (Api (HcloudError ErrorCodeConflict ''conflict'')), d_example,
      [CallServerGetByID 5, CallNetworkGetByID 100,
       CallDetachFromNetwork (fst (Server_GetByID env_attached [] 5))
         \<lparr>Detach_Network = Some \<lparr>Network_ID = 100\<rparr>\<rparr>,
       CallDetachFromNetwork (fst (Server_GetByID env_attached [] 5))
         \<lparr>Detach_Network = Some \<lparr>Network_ID = 100\<rparr>\<rparr>])"
proof -
  let ?srv = "fst (Server_GetByID env_attached [] 5)"
  let ?nw = "Some \<lparr>Network_ID = 100\<rparr>"
  let ?pn = "Some \<lparr>PrivateNet_Network = \<lparr>Network_ID = 100\<rparr>, PrivateNet_IP = [10, 0, 0, 2],
                    PrivateNet_Aliases = [], PrivateNet_MACAddress = ''86:00:00:2a:7e:3f''\<rparr>"
  let ?opts = "\<lparr>Detach_Network = ?nw\<rparr>"
  let ?cl = "CallDetachFromNetwork ?srv ?opts"
  let ?tr1 = "[CallServerGetByID 5, CallNetworkGetByID 100]"
  note e = env_detach_locked_then_gone_def env_detach_forbidden_def env_wait_fails_def
    env_always_locked_def env_attached_def env_found_def retryable_def is_detach_call_def
  have l1: "lookupServerNetworkID env_server_gone (d_Id d_example) [] =
              ((None, None, None, Some errInvalidServerNetworkID), [CallServerGetByID 5])"
    by code_simp
  have l2: "lookupServerNetworkID env_detach_locked_then_gone (d_Id d_example) [] =
              ((?srv, ?nw, ?pn, None), ?tr1)"
    by code_simp
  have l3: "lookupServerNetworkID env_detach_forbidden (d_Id d_example) [] =
              ((?srv, ?nw, ?pn, None), ?tr1)"
    by code_simp
  have l4: "lookupServerNetworkID env_wait_fails (d_Id d_example) [] =
              ((?srv, ?nw, ?pn, None), ?tr1)"
    by code_simp
  have l5: "lookupServerNetworkID env_always_locked (d_Id d_example) [] =
              ((?srv, ?nw, ?pn, None), ?tr1)"
    by code_simp
  have p1: "resourceServerNetworkDelete env_server_gone d_example [] =
     (None, d_example\<lparr>d_Id := []\<rparr>,
      [CallServerGetByID 5,
       LogPrintf ''[WARN] Invalid id (%s), removing from state: %s''
         [ArgString (d_Id d_example), ArgErr errInvalidServerNetworkID]])"
    using delete_tolerates_already_gone [OF l1 refl refl] by simp
  have h2: "(\<forall>i<1. retryable (snd (Server_DetachFromNetwork env_detach_locked_then_gone
                                     (?tr1 @ replicate i ?cl) ?srv ?opts))) \<and>
            1 < defaultMaxRetries env_detach_locked_then_gone \<and>
            Server_DetachFromNetwork env_detach_locked_then_gone (?tr1 @ replicate 1 ?cl) ?srv ?opts =
              (None, Some (HcloudError ErrorCodeNotFound ''not found''))"
    by (simp add: e)
  have p2: "resourceServerNetworkDelete env_detach_locked_then_gone d_example [] =
              (None, d_example, ?tr1 @ replicate (Suc 1) ?cl)"
    using delete_tolerates_already_gone [OF l2 refl refl, where k = 1 and a = None and m = "''not found''"] h2
    by blast
  have h3: "(\<forall>i<0. retryable (snd (Server_DetachFromNetwork env_detach_forbidden
                                     (?tr1 @ replicate i ?cl) ?srv ?opts))) \<and>
            0 < defaultMaxRetries env_detach_forbidden \<and>
            Server_DetachFromNetwork env_detach_forbidden (?tr1 @ replicate 0 ?cl) ?srv ?opts =
              (None, Some (HcloudError (ErrorCodeOther ''forbidden'') ''insufficient permissions'')) \<and>
            \<not> retryable (Some (HcloudError (ErrorCodeOther ''forbidden'') ''insufficient permissions'')) \<and>
            \<not> IsError (Some (Api (HcloudError (ErrorCodeOther ''forbidden'') ''insufficient permissions'')))
                 ErrorCodeNotFound"
    by (simp add: e)
  have p3: "resourceServerNetworkDelete env_detach_forbidden d_example [] =
              (Some (Api (HcloudError (ErrorCodeOther ''forbidden'') ''insufficient permissions'')),
               d_example, ?tr1 @ replicate (Suc 0) ?cl)"
    using delete_tolerates_already_gone
      [OF l3 refl refl, where k = 0 and a = None
         and e' = "HcloudError (ErrorCodeOther ''forbidden'') ''insufficient permissions''"] h3
    by blast
  have h4: "(\<forall>i<0. retryable (snd (Server_DetachFromNetwork env_wait_fails
                                     (?tr1 @ replicate i ?cl) ?srv ?opts))) \<and>
            0 < defaultMaxRetries env_wait_fails \<and>
            Server_DetachFromNetwork env_wait_fails (?tr1 @ replicate 0 ?cl) ?srv ?opts =
              (Some \<lparr>Action_ID = 2\<rparr>, None)"
    by (simp add: e)
  have p4: "resourceServerNetworkDelete env_wait_fails d_example [] =
              (map_option Api (waitForNetworkAction env_wait_fails (?tr1 @ replicate (Suc 0) ?cl)
                                 (Some \<lparr>Action_ID = 2\<rparr>) ?nw), d_example,
               ?tr1 @ replicate (Suc 0) ?cl @ [CallWaitForNetworkAction (Some \<lparr>Action_ID = 2\<rparr>) ?nw])"
    using delete_tolerates_already_gone
      [OF l4 refl refl, where k = 0 and a = "Some \<lparr>Action_ID = 2\<rparr>"] h4
    by blast
  have h5: "(\<forall>i<defaultMaxRetries env_always_locked.
               retryable (snd (Server_DetachFromNetwork env_always_locked
                                 (?tr1 @ replicate i ?cl) ?srv ?opts))) \<and>
            0 < defaultMaxRetries env_always_locked"
    by (simp add: e)
  have p5: "resourceServerNetworkDelete env_always_locked d_example [] =
              (map_option Api
                 (snd (Server_DetachFromNetwork env_always_locked
                         (?tr1 @ replicate (defaultMaxRetries env_always_locked - 1) ?cl) ?srv ?opts)),
               d_example, ?tr1 @ replicate (defaultMaxRetries env_always_locked) ?cl)"
    using delete_tolerates_already_gone [OF l5 refl refl] h5 by blast
  have id: "d_Id d_example = ''5-100''" by (simp add: d_example_def)
  have w: "waitForNetworkAction env_wait_fails = (\<lambda>tr a nw. Some (ForeignError ''action failed''))"
    by (simp add: e)
  have r5: "defaultMaxRetries env_always_locked = 2"
    "Server_DetachFromNetwork env_always_locked =
       (\<lambda>tr s opts. (None, Some (HcloudError ErrorCodeConflict ''conflict'')))"
    by (simp_all add: e)
  show ?thesis
    unfolding p1 p2 p3 p4 p5 id w r5 by (simp add: numeral_2_eq_2)
qed

subsection \<open>Update\<close>

text \<open>
  Claim C1 does not hold of the source. \<^verbatim>\<open>resourceServerNetworkUpdate\<close> calls
  \<^verbatim>\<open>client.Server.ChangeAliasIPs\<close> directly, not through \<^verbatim>\<open>retry\<close>: on a resolved attachment
  with a change of \<^verbatim>\<open>alias_ips\<close>, a first answer \<^verbatim>\<open>locked\<close> is returned as the operation's
  error after a single call, although the second call would have succeeded.
\<close>

theorem update_surfaces_locked_at_once:
  "resourceServerNetworkUpdate env_change_locked_once d_example [] =
     (Some (Api (HcloudError ErrorCodeLocked ''network is locked'')), d_example,
      [CallServerGetByID 5, CallNetworkGetByID 100,
       CallChangeAliasIPs
         (Some \<lparr>Server_ID = 5,
                 Server_PrivateNet =
                   [\<lparr>PrivateNet_Network = \<lparr>Network_ID = 100\<rparr>, PrivateNet_IP = [10, 0, 0, 2],
                     PrivateNet_Aliases = [], PrivateNet_MACAddress = ''86:00:00:2a:7e:3f''\<rparr>]\<rparr>)
         \<lparr>Change_Network = Some \<lparr>Network_ID = 100\<rparr>, Change_AliasIPs = [ParseIP env_found ''10.0.0.5'']\<rparr>])"
  by code_simp

text \<open>
  Claim C2 does not hold of the source. \<^verbatim>\<open>resourceServerNetworkUpdate\<close> discards the
  membership the resolver returns: with server and network present, no membership and a
  change of \<^verbatim>\<open>alias_ips\<close>, it issues the change call and waits for its action; only the
  read that follows finds the membership absent and clears the id.
\<close>

theorem update_mutates_without_membership:
  "fst (lookupServerNetworkID env_found (d_Id d_example) []) =
     (Some \<lparr>Server_ID = 5, Server_PrivateNet = []\<rparr>, Some \<lparr>Network_ID = 100\<rparr>, None, None) \<and>
   resourceServerNetworkUpdate env_found d_example [] =
     (None, d_example\<lparr>d_Id := []\<rparr>,
      [CallServerGetByID 5, CallNetworkGetByID 100,
       CallChangeAliasIPs (Some \<lparr>Server_ID = 5, Server_PrivateNet = []\<rparr>)
         \<lparr>Change_Network = Some \<lparr>Network_ID = 100\<rparr>, Change_AliasIPs = [ParseIP env_found ''10.0.0.5'']\<rparr>,
       CallWaitForNetworkAction (Some \<lparr>Action_ID = 3\<rparr>) (Some \<lparr>Network_ID = 100\<rparr>),
       CallServerGetByID 5, CallNetworkGetByID 100,
       LogPrintf ''[WARN] Server Attachment (%s) not found, removing from state''
         [ArgString ''5-100'']])"
  by code_simp

end
